theory Spec2Isabelle
  imports Main "HOL-Library.Sublist" "HOL-Library.Multiset"
begin

section \<open>Python string operations used by the harvesting core\<close>

text \<open>
  Strings are lists of 8-bit characters, so the diff texts, header lines and file
  names the collector handles are texts of code points below 256. On these
  \<^verbatim>\<open>str.lower\<close> folds the letters A-Z and the capital letters of the Latin-1 block
  (\<^verbatim>\<open>0xC0\<close> to \<^verbatim>\<open>0xDE\<close> without the multiplication sign \<^verbatim>\<open>0xD7\<close>), and
  \<^verbatim>\<open>str.strip\<close> removes the characters for which \<^verbatim>\<open>str.isspace\<close> holds: the
  space, \<^verbatim>\<open>0x09\<close> to \<^verbatim>\<open>0x0D\<close>, \<^verbatim>\<open>0x1C\<close> to \<^verbatim>\<open>0x1F\<close>, the next-line control
  \<^verbatim>\<open>0x85\<close> and the no-break space \<^verbatim>\<open>0xA0\<close>.
\<close>

definition startswith :: "string \<Rightarrow> string \<Rightarrow> bool" where
  "startswith s p = prefix p s"

definition endswith :: "string \<Rightarrow> string \<Rightarrow> bool" where
  "endswith s p = suffix p s"

definition lower_char :: "char \<Rightarrow> char" where
  "lower_char c =
     (let n = (of_char c :: nat)
      in if (65 \<le> n \<and> n \<le> 90) \<or> (192 \<le> n \<and> n \<le> 222 \<and> n \<noteq> 215)
         then char_of (n + 32) else c)"

definition lower :: "string \<Rightarrow> string" where
  "lower s = map lower_char s"

definition is_space :: "char \<Rightarrow> bool" where
  "is_space c =
     (let n = (of_char c :: nat)
      in n = 32 \<or> (9 \<le> n \<and> n \<le> 13) \<or> (28 \<le> n \<and> n \<le> 31)
         \<or> n = 133 \<or> n = 160)"

definition strip :: "string \<Rightarrow> string" where
  "strip s = rev (dropWhile is_space (rev (dropWhile is_space s)))"

text \<open>
  \<^verbatim>\<open>s.split(sep)\<close> for a one-character separator and \<^verbatim>\<open>re.split\<close> for an
  alternation of single characters: the pieces between separator characters, empty
  pieces included, so the result is never the empty list.
\<close>

fun split_on :: "(char \<Rightarrow> bool) \<Rightarrow> string \<Rightarrow> string list" where
  "split_on P [] = [[]]"
| "split_on P (c # cs) =
     (if P c then [] # split_on P cs
      else (let r = split_on P cs in (c # hd r) # tl r))"

definition newline :: char where
  "newline = CHR 0x0A"

definition split_lines :: "string \<Rightarrow> string list" where
  "split_lines s = split_on (\<lambda>c. c = newline) s"

definition split_slash :: "string \<Rightarrow> string list" where
  "split_slash s = split_on (\<lambda>c. c = CHR ''/'') s"

text \<open>The pattern \<^verbatim>\<open>r" |_|\/|\."\<close> of the header tokenizer.\<close>

definition re_split_words :: "string \<Rightarrow> string list" where
  "re_split_words s =
     split_on (\<lambda>c. c = CHR '' '' \<or> c = CHR ''_'' \<or> c = CHR ''/'' \<or> c = CHR ''.'') s"

text \<open>\<^verbatim>\<open>"\n".join(xs) + "\n" if len(xs) > 0 else ""\<close>\<close>

fun join_lines :: "string list \<Rightarrow> string" where
  "join_lines [] = []"
| "join_lines [x] = x"
| "join_lines (x # y # ys) = x @ newline # join_lines (y # ys)"

definition render_patch :: "string list \<Rightarrow> string" where
  "render_patch xs = (if length xs > 0 then join_lines xs @ [newline] else [])"

text \<open>\<^verbatim>\<open>sub in s\<close> on strings.\<close>

fun contains :: "string \<Rightarrow> string \<Rightarrow> bool" where
  "contains sub [] = (sub = [])"
| "contains sub (c # cs) = (prefix sub (c # cs) \<or> contains sub cs)"

text \<open>
  \<^verbatim>\<open>s.replace(old, "")\<close>: every non-overlapping occurrence of \<open>old\<close>, found from
  the left, is removed.
\<close>

function remove_all :: "string \<Rightarrow> string \<Rightarrow> string" where
  "remove_all old s =
     (if old = [] \<or> s = [] then s
      else if prefix old s then remove_all old (drop (length old) s)
      else hd s # remove_all old (tl s))"
  by pat_completeness auto
termination
  by (relation "measure (\<lambda>(old, s). length s)") auto

declare remove_all.simps [simp del]

section \<open>PatchClassifier: \<^verbatim>\<open>extract_patches\<close>\<close>

text \<open>
  The current-file flag of the scan: \<^verbatim>\<open>"test"\<close>, \<^verbatim>\<open>"diff"\<close> or \<^verbatim>\<open>None\<close>.
\<close>

datatype flag = Test | Diff

text \<open>
  \<^verbatim>\<open>get_language_with_pygments\<close> asks the pygments library for the lexer of a file
  name; the library is not part of the repository, so the lookup is a parameter
  \<open>lexer\<close> of the classifier. The repository object contributes its \<open>language\<close>
  (which may be \<^verbatim>\<open>None\<close>) and its \<open>name\<close>.
\<close>

definition words_flag :: "string \<Rightarrow> flag" where
  "words_flag line =
     (let words = set (re_split_words (lower line))
      in if ''test'' \<in> words \<or> ''tests'' \<in> words \<or> ''testing'' \<in> words
         then Test else Diff)"

definition python_rule :: "string \<Rightarrow> flag \<Rightarrow> flag option" where
  "python_rule line flag =
     (if flag \<noteq> Test \<and> \<not> endswith (strip line) ''.py'' then None else Some flag)"

definition js_rule :: "(string \<Rightarrow> string) \<Rightarrow> string \<Rightarrow> string \<Rightarrow> flag \<Rightarrow> flag option" where
  "js_rule lexer name line flag =
     (let language = lexer (strip line);
          is_js = (language = ''javascript'' \<or> language = ''typescript'');
          is_js = (if (contains ''webpack'' name \<or> contains ''jest'' name)
                      \<and> endswith (strip line) ''.json''
                   then True else is_js)
      in if flag \<noteq> Test \<and> \<not> is_js then None else Some flag)"

definition java_accept :: "(string \<Rightarrow> string) \<Rightarrow> string \<Rightarrow> string \<Rightarrow> flag \<Rightarrow> flag option" where
  "java_accept lexer name line flag =
     (let language = lexer (strip line);
          is_java = (language = ''java'');
          is_java = (if contains ''netty'' name
                        \<and> (endswith (strip line) ''.c'' \<or> endswith (strip line) ''pom.xml'')
                     then True else is_java)
      in if flag \<noteq> Test \<and> \<not> is_java then None else Some flag)"

definition test_named :: "string \<Rightarrow> bool" where
  "test_named file_name =
     (startswith file_name ''Test'' \<or> startswith file_name ''Tests''
      \<or> endswith file_name ''Test'' \<or> endswith file_name ''Tests'')"

text \<open>
  The Java branch of \<^verbatim>\<open>utils_async.py\<close>:
  \<^verbatim>\<open>file_name = file_name.replace(".java", "")\<close> rebinds the name before the
  prefix and suffix tests.
\<close>

definition java_rule :: "(string \<Rightarrow> string) \<Rightarrow> string \<Rightarrow> string \<Rightarrow> flag \<Rightarrow> flag option" where
  "java_rule lexer name line flag =
     (let file_name = last (split_slash line);
          flag = (if endswith file_name ''.java''
                  then (let file_name = remove_all ''.java'' file_name
                        in if test_named file_name then Test else flag)
                  else flag)
      in java_accept lexer name line flag)"

text \<open>
  The Java branch of \<^verbatim>\<open>utils.py\<close>: the statement
  \<^verbatim>\<open>file_name.replace(".java", "")\<close> discards its result, so the prefix and suffix
  tests see the name with its extension.
\<close>

definition java_rule_sync :: "(string \<Rightarrow> string) \<Rightarrow> string \<Rightarrow> string \<Rightarrow> flag \<Rightarrow> flag option" where
  "java_rule_sync lexer name line flag =
     (let file_name = last (split_slash line);
          flag = (if endswith file_name ''.java''
                  then (if test_named file_name then Test else flag)
                  else flag)
      in java_accept lexer name line flag)"

text \<open>The flag a header line \<^verbatim>\<open>diff --git a/...\<close> sets (\<^verbatim>\<open>utils_async.py\<close>).\<close>

definition header_flag ::
  "(string \<Rightarrow> string) \<Rightarrow> string option \<Rightarrow> string \<Rightarrow> string \<Rightarrow> flag option" where
  "header_flag lexer language name line =
     (let flag = words_flag line
      in if language = Some ''python'' then python_rule line flag
         else if language = Some ''js'' then js_rule lexer name line flag
         else if language = Some ''java'' then java_rule lexer name line flag
         else Some flag)"

text \<open>The same for \<^verbatim>\<open>utils.py\<close>.\<close>

definition header_flag_sync ::
  "(string \<Rightarrow> string) \<Rightarrow> string option \<Rightarrow> string \<Rightarrow> string \<Rightarrow> flag option" where
  "header_flag_sync lexer language name line =
     (let flag = words_flag line
      in if language = Some ''python'' then python_rule line flag
         else if language = Some ''js'' then js_rule lexer name line flag
         else if language = Some ''java'' then java_rule_sync lexer name line flag
         else Some flag)"

text \<open>
  One iteration of the scanning loop, which both files share word for word. The
  state is the flag and the two line lists \<^verbatim>\<open>patch_change\<close> and \<^verbatim>\<open>patch_test\<close>;
  \<open>hdr\<close> is the header rule of the file at hand.
\<close>

type_synonym scan = "flag option \<times> string list \<times> string list"

definition classify_line :: "(string \<Rightarrow> flag option) \<Rightarrow> scan \<Rightarrow> string \<Rightarrow> scan" where
  "classify_line hdr st line =
     (case st of (flag, patch_change, patch_test) \<Rightarrow>
        if startswith line ''index '' then (flag, patch_change, patch_test)
        else
          (let flag = (if startswith line ''diff --git a/'' then hdr line else flag)
           in case flag of
                Some Test \<Rightarrow> (flag, patch_change, patch_test @ [line])
              | Some Diff \<Rightarrow> (flag, patch_change @ [line], patch_test)
              | None \<Rightarrow> (flag, patch_change, patch_test)))"

definition scan_lines :: "(string \<Rightarrow> flag option) \<Rightarrow> scan \<Rightarrow> string list \<Rightarrow> scan" where
  "scan_lines hdr st ls = foldl (classify_line hdr) st ls"

text \<open>
  \<^verbatim>\<open>extract_patches\<close> after its fetch: \<open>patch\<close> is the text the fetcher returned for
  the pull request's diff url (the empty string when the fetch failed). The result is
  \<^verbatim>\<open>(patch_change_str, patch_test_str, request_success)\<close>.
\<close>

definition classify_text :: "(string \<Rightarrow> flag option) \<Rightarrow> string \<Rightarrow> string \<times> string \<times> bool" where
  "classify_text hdr patch =
     (if patch = [] then ([], [], False)
      else
        (let patch = (if endswith patch [newline] then butlast patch else patch);
             (flag, patch_change, patch_test) = scan_lines hdr (None, [], []) (split_lines patch)
         in (render_patch patch_change, render_patch patch_test, True)))"

definition extract_patches ::
  "(string \<Rightarrow> string) \<Rightarrow> string option \<Rightarrow> string \<Rightarrow> string \<Rightarrow> string \<times> string \<times> bool" where
  "extract_patches lexer language name patch =
     classify_text (header_flag lexer language name) patch"

definition extract_patches_sync ::
  "(string \<Rightarrow> string) \<Rightarrow> string option \<Rightarrow> string \<Rightarrow> string \<Rightarrow> string \<times> string \<times> bool" where
  "extract_patches_sync lexer language name patch =
     classify_text (header_flag_sync lexer language name) patch"

text \<open>
  The flag in force after each line of a scan, and the lines a stream receives: those
  read under its flag that are not blob-index lines. These two functions state what the
  scanning loop is meant to compute; they are compared with \<open>scan_lines\<close> below.
\<close>

definition next_flag :: "(string \<Rightarrow> flag option) \<Rightarrow> flag option \<Rightarrow> string \<Rightarrow> flag option" where
  "next_flag hdr flag line =
     (if startswith line ''index '' then flag
      else if startswith line ''diff --git a/'' then hdr line else flag)"

fun running_flags :: "(string \<Rightarrow> flag option) \<Rightarrow> flag option \<Rightarrow> string list \<Rightarrow> flag option list" where
  "running_flags hdr flag [] = []"
| "running_flags hdr flag (l # ls) =
     next_flag hdr flag l # running_flags hdr (next_flag hdr flag l) ls"

definition routed :: "flag \<Rightarrow> flag option list \<Rightarrow> string list \<Rightarrow> string list" where
  "routed g fs ls =
     map snd (filter (\<lambda>(f, l). f = Some g \<and> \<not> startswith l ''index '') (zip fs ls))"

text \<open>
  A diff of one Java file whose name ends in \<^verbatim>\<open>Test\<close>: the input at which the two
  classifiers are compared.
\<close>

definition foo_header :: string where
  "foo_header = ''diff --git a/src/FooTest.java b/src/FooTest.java''"

definition foo_body :: string where
  "foo_body = ''+class FooTest {}''"

definition foo_test_diff :: string where
  "foo_test_diff = foo_header @ [newline] @ foo_body"

text \<open>A line that is not blob-index metadata.\<close>

definition not_index :: "string \<Rightarrow> bool" where
  "not_index l = (\<not> startswith l ''index '')"

text \<open>
  Sample diffs: a test file under \<^verbatim>\<open>tests/\<close>, a source file under \<^verbatim>\<open>src/\<close>, and a
  header of a file under \<^verbatim>\<open>src/\<close> whose name starts with \<^verbatim>\<open>test_\<close>.
\<close>

definition tests_header :: string where
  "tests_header = ''diff --git a/tests/x_test.py b/tests/x_test.py''"

definition tests_body :: "string list" where
  "tests_body = [''index 1a2b3c4..5d6e7f8 100644'', ''--- a/tests/x_test.py'',
                 ''+++ b/tests/x_test.py'', ''+assert x == 1'']"

definition src_header :: string where
  "src_header = ''diff --git a/src/x.py b/src/x.py''"

definition src_body :: "string list" where
  "src_body = [''index 0f1e2d3..4c5b6a7 100644'', ''--- a/src/x.py'',
               ''+++ b/src/x.py'', ''+x = 1'']"

definition src_test_header :: string where
  "src_test_header = ''diff --git a/src/test_x.py b/src/test_x.py''"

text \<open>
  The conditions of the round-trip property, stated on the input. The lines of a diff
  text are its pieces between newlines, a final newline ending the last line.
\<close>

definition text_lines :: "string \<Rightarrow> string list" where
  "text_lines p = split_lines (if endswith p [newline] then butlast p else p)"

text \<open>
  A header without test marker: none of the tokens of its lower-cased text, split at
  spaces, underscores, slashes and dots, is \<^verbatim>\<open>test\<close>, \<^verbatim>\<open>tests\<close> or \<^verbatim>\<open>testing\<close>.
\<close>

definition no_test_token :: "string \<Rightarrow> bool" where
  "no_test_token h =
     (''test'' \<notin> set (re_split_words (lower h))
      \<and> ''tests'' \<notin> set (re_split_words (lower h))
      \<and> ''testing'' \<notin> set (re_split_words (lower h)))"

text \<open>
  A header naming a file of a type the language profile accepts: \<^verbatim>\<open>.py\<close> for Python;
  a file pygments takes for JavaScript or TypeScript, or a \<^verbatim>\<open>.json\<close> file of a
  webpack or jest repository, for JS; a file pygments takes for Java, or a \<^verbatim>\<open>.c\<close> or
  \<^verbatim>\<open>pom.xml\<close> file of a netty repository, for Java; any file for every other profile.
\<close>

definition accepted_source ::
  "(string \<Rightarrow> string) \<Rightarrow> string option \<Rightarrow> string \<Rightarrow> string \<Rightarrow> bool" where
  "accepted_source lexer language name h =
     (if language = Some ''python'' then endswith (strip h) ''.py''
      else if language = Some ''js'' then
        lexer (strip h) = ''javascript'' \<or> lexer (strip h) = ''typescript''
        \<or> ((contains ''webpack'' name \<or> contains ''jest'' name) \<and> endswith (strip h) ''.json'')
      else if language = Some ''java'' then
        lexer (strip h) = ''java''
        \<or> (contains ''netty'' name
            \<and> (endswith (strip h) ''.c'' \<or> endswith (strip h) ''pom.xml''))
      else True)"

text \<open>
  A header naming a \<^verbatim>\<open>.java\<close> file whose name without the extension starts or ends
  with \<^verbatim>\<open>Test\<close> or \<^verbatim>\<open>Tests\<close>.
\<close>

definition java_test_named :: "string \<Rightarrow> bool" where
  "java_test_named h =
     (endswith (last (split_slash h)) ''.java''
      \<and> test_named (remove_all ''.java'' (last (split_slash h))))"

text \<open>A diff of \<^verbatim>\<open>src/tests/FooTest.java\<close> and of \<^verbatim>\<open>src/main/Foo.java\<close>.\<close>

definition java_tests_header :: string where
  "java_tests_header = ''diff --git a/src/tests/FooTest.java b/src/tests/FooTest.java''"

definition java_src_header :: string where
  "java_src_header = ''diff --git a/src/main/Foo.java b/src/main/Foo.java''"

definition java_src_body :: "string list" where
  "java_src_body = [''index 0f1e2d3..4c5b6a7 100644'', ''+class Foo {}'']"

definition java_tests_body :: "string list" where
  "java_tests_body = [''index 1a2b3c4..5d6e7f8 100644'', ''+class FooTest {}'']"

section \<open>IdentityRotator: \<^verbatim>\<open>ProxyRotator\<close>\<close>

text \<open>
  \<^verbatim>\<open>str(n)\<close> for a non-negative integer and \<^verbatim>\<open>s.zfill(w)\<close> for a string of
  digits.
\<close>

definition digit_char :: "nat \<Rightarrow> char" where
  "digit_char d = char_of (48 + d)"

function str_nat :: "nat \<Rightarrow> string" where
  "str_nat n =
     (if n < 10 then [digit_char n]
      else str_nat (n div 10) @ [digit_char (n mod 10)])"
  by pat_completeness auto
termination
  by (relation "measure id") auto

declare str_nat.simps [simp del]

definition zfill :: "nat \<Rightarrow> string \<Rightarrow> string" where
  "zfill w s = replicate (w - length s) (CHR ''0'') @ s"

text \<open>
  The rotator object. The attribute \<^verbatim>\<open>_random_offset\<close> does not exist until the
  first session id is generated (\<^verbatim>\<open>hasattr\<close>), so it is optional here. The
  threshold is \<^verbatim>\<open>int(os.getenv(...))\<close>, an integer.
\<close>

record proxy_rotator =
  repo_full_name :: string
  request_count :: nat
  max_requests_per_ip :: int
  current_session_id :: "string option"
  rotation_count :: nat
  random_offset :: "nat option"
  host :: string
  password :: string
  http_port :: string
  https_port :: string
  country :: string
  use_session :: bool
  enabled :: bool

text \<open>
  \<^verbatim>\<open>_generate_new_session_id\<close>. The MD5 digest of the repository name, read as a
  number, is a parameter \<open>md5\<close>; \<open>now\<close> is \<^verbatim>\<open>int(time.time())\<close> at the call.
\<close>

definition generate_new_session_id ::
  "(string \<Rightarrow> nat) \<Rightarrow> nat \<Rightarrow> proxy_rotator \<Rightarrow> string \<times> proxy_rotator" where
  "generate_new_session_id md5 now r =
     (let base_hash = md5 (repo_full_name r);
          r = (case random_offset r of
                 None \<Rightarrow> r\<lparr>random_offset := Some (now mod 1000000)\<rparr>
               | Some off \<Rightarrow> r);
          combined = (base_hash + rotation_count r + the (random_offset r)) mod 100000000
      in (zfill 8 (str_nat combined), r))"

text \<open>
  \<^verbatim>\<open>get_proxies\<close>: the proxy URL (the returned dictionary maps both \<^verbatim>\<open>"http"\<close> and
  \<^verbatim>\<open>"https"\<close> to it), or \<^verbatim>\<open>None\<close> in disabled mode, with the updated rotator.
\<close>

definition get_proxies ::
  "(string \<Rightarrow> nat) \<Rightarrow> nat \<Rightarrow> proxy_rotator \<Rightarrow> string option \<times> proxy_rotator" where
  "get_proxies md5 now r =
     (if \<not> enabled r then (None, r)
      else
        (let r = (if int (request_count r) \<ge> max_requests_per_ip r
                  then r\<lparr>rotation_count := rotation_count r + 1,
                         request_count := 0,
                         current_session_id := None\<rparr>
                  else r);
             r = (case current_session_id r of
                    None \<Rightarrow>
                      (let (sid, r') = generate_new_session_id md5 now r
                       in r'\<lparr>current_session_id := Some sid\<rparr>)
                  | Some sid \<Rightarrow> r);
             username = (if use_session r
                         then ''proxy-cot-'' @ country r @ ''-sid-'' @ the (current_session_id r)
                         else ''proxy'');
             http_proxy = ''http://'' @ username @ '':'' @ password r @ ''@''
                            @ host r @ '':'' @ http_port r
         in (Some http_proxy, r)))"

definition increment_request_count :: "proxy_rotator \<Rightarrow> proxy_rotator" where
  "increment_request_count r = r\<lparr>request_count := request_count r + 1\<rparr>"

text \<open>
  One recorded request as the fetchers perform it: \<^verbatim>\<open>increment_request_count()\<close>
  followed by \<^verbatim>\<open>get_proxies()\<close>; \<open>requests\<close> is the state after \<open>n\<close> of them, the
  \<open>i\<close>-th one made at clock reading \<open>clock i\<close>.
\<close>

definition record_request :: "(string \<Rightarrow> nat) \<Rightarrow> nat \<Rightarrow> proxy_rotator \<Rightarrow> proxy_rotator" where
  "record_request md5 now r = snd (get_proxies md5 now (increment_request_count r))"

fun requests :: "(string \<Rightarrow> nat) \<Rightarrow> (nat \<Rightarrow> nat) \<Rightarrow> proxy_rotator \<Rightarrow> nat \<Rightarrow> proxy_rotator" where
  "requests md5 clock r 0 = r"
| "requests md5 clock r (Suc n) = record_request md5 (clock n) (requests md5 clock r n)"

text \<open>The number a string of decimal digits denotes (used to compare session ids).\<close>

definition digits_value :: "string \<Rightarrow> nat" where
  "digits_value s = foldl (\<lambda>a c. 10 * a + (of_char c - 48)) 0 s"

text \<open>A rotator as the constructor leaves it, with a threshold of three requests.\<close>

definition sample_rotator :: proxy_rotator where
  "sample_rotator =
     \<lparr>repo_full_name = ''o/r'', request_count = 0, max_requests_per_ip = 3,
      current_session_id = None, rotation_count = 0, random_offset = None,
      host = ''h'', password = ''p'', http_port = ''8080'', https_port = ''18080'',
      country = ''us'', use_session = True, enabled = True\<rparr>"

text \<open>
  The session id generated at rotation index \<open>rc\<close> with process offset \<open>off\<close>, for a
  repository whose name hashes to \<open>b\<close>.
\<close>

definition session_id_at :: "nat \<Rightarrow> nat \<Rightarrow> nat \<Rightarrow> string" where
  "session_id_at b rc off = zfill 8 (str_nat ((b + rc + off) mod 100000000))"

section \<open>ResilientFetcher: \<^verbatim>\<open>fetch_with_retries\<close> and \<^verbatim>\<open>github_api\<close>\<close>

text \<open>
  \<^verbatim>\<open>int(s)\<close> on a string: surrounding whitespace is skipped (for \<^verbatim>\<open>int\<close> the
  characters \<^verbatim>\<open>0x09\<close> to \<^verbatim>\<open>0x0D\<close>, the space, \<^verbatim>\<open>0x85\<close> and \<^verbatim>\<open>0xA0\<close>), one sign
  may follow, then decimal digits, with single underscores allowed between digits.
  Anything else raises \<^verbatim>\<open>ValueError\<close>, which is the result \<open>None\<close> here.
\<close>

definition int_space :: "char \<Rightarrow> bool" where
  "int_space c =
     (let n = (of_char c :: nat)
      in n = 32 \<or> (9 \<le> n \<and> n \<le> 13) \<or> n = 133 \<or> n = 160)"

definition is_digit :: "char \<Rightarrow> bool" where
  "is_digit c = (let n = (of_char c :: nat) in 48 \<le> n \<and> n \<le> 57)"

definition digits_ok :: "string \<Rightarrow> bool" where
  "digits_ok s =
     (s \<noteq> [] \<and> is_digit (hd s) \<and> is_digit (last s)
      \<and> list_all (\<lambda>c. is_digit c \<or> c = CHR ''_'') s \<and> \<not> contains ''__'' s)"

definition py_int :: "string \<Rightarrow> int option" where
  "py_int s =
     (let t = rev (dropWhile int_space (rev (dropWhile int_space s)));
          negative = (t \<noteq> [] \<and> hd t = CHR ''-'');
          t = (if t \<noteq> [] \<and> (hd t = CHR ''-'' \<or> hd t = CHR ''+'') then tl t else t)
      in if digits_ok t
         then (let v = int (digits_value (filter (\<lambda>c. c \<noteq> CHR ''_'') t))
               in Some (if negative then - v else v))
         else None)"

text \<open>
  The exceptions the fetchers meet: \<open>NetworkError\<close> stands for the classes a
  fetcher's network clause names (\<^verbatim>\<open>aiohttp.ClientError\<close> and
  \<^verbatim>\<open>asyncio.TimeoutError\<close> in \<^verbatim>\<open>utils_async.py\<close>; \<^verbatim>\<open>ConnectionError\<close>, \<^verbatim>\<open>Timeout\<close>,
  \<^verbatim>\<open>RemoteDisconnected\<close>, \<^verbatim>\<open>IncompleteRead\<close>, \<^verbatim>\<open>ConnectionResetError\<close> and \<^verbatim>\<open>OSError\<close>
  in \<^verbatim>\<open>utils.py\<close>).
\<close>

datatype error = NetworkError | HTTP404NotFoundError | ValueError | KeyError

text \<open>
  A response: its status code, the lookup of a header by name, its body text, and
  the exception \<^verbatim>\<open>response.json()\<close> raises on that body, if any. An attempt delivers
  a response or raises.
\<close>

record response =
  status :: nat
  headers :: "string \<rightharpoonup> string"
  body :: string
  json_error :: "error option"

datatype outcome = Response response | Raised error

text \<open>
  What one pass through the loop body decides: return a value, go round again
  (every such path of the source adds one to \<^verbatim>\<open>retries\<close>), or let an exception out.
\<close>

datatype 'a action = Return 'a | Retry | Raise error

text \<open>The three assignments by which a fetcher forces a rotation.\<close>

definition force_rotate :: "proxy_rotator \<Rightarrow> proxy_rotator" where
  "force_rotate rot =
     rot\<lparr>rotation_count := rotation_count rot + 1, request_count := 0,
         current_session_id := None\<rparr>"

definition rotate_if_enabled :: "proxy_rotator \<Rightarrow> proxy_rotator" where
  "rotate_if_enabled rot = (if enabled rot then force_rotate rot else rot)"

text \<open>
  The body of the \<^verbatim>\<open>try\<close> statement of \<^verbatim>\<open>fetch_with_retries\<close> with its
  \<^verbatim>\<open>except\<close> clause. Its sleeps cannot fail (\<^verbatim>\<open>asyncio.sleep\<close> returns at once for a
  delay that is not positive) and are not part of the result.
\<close>

definition fetch_attempt :: "outcome \<Rightarrow> proxy_rotator \<Rightarrow> string action \<times> proxy_rotator" where
  "fetch_attempt out rot =
     (case out of
        Raised e \<Rightarrow>
          (if e = NetworkError then (Retry, rotate_if_enabled rot) else (Raise e, rot))
      | Response r \<Rightarrow>
          if status r = 200 then (Return (body r), rot)
          else if status r = 403 then
            (case py_int (case headers r ''X-RateLimit-Remaining'' of
                            None \<Rightarrow> ''0'' | Some v \<Rightarrow> v) of
               None \<Rightarrow> (Raise ValueError, rot)
             | Some remaining \<Rightarrow>
                 if remaining = 0 then
                   (if enabled rot then (Retry, force_rotate rot)
                    else (case headers r ''X-RateLimit-Reset'' of
                            None \<Rightarrow> (Retry, rot)
                          | Some v \<Rightarrow>
                              (case py_int v of
                                 None \<Rightarrow> (Raise ValueError, rot)
                               | Some reset_time \<Rightarrow> (Retry, rot))))
                 else (Retry, rot))
          else if status r = 502 \<or> status r = 503 then (Retry, rotate_if_enabled rot)
          else if status r = 429 then
            (case (case headers r ''Retry-After'' of
                     None \<Rightarrow> Some 60 | Some v \<Rightarrow> py_int v) of
               None \<Rightarrow> (Raise ValueError, rot)
             | Some retry_after \<Rightarrow> (Retry, rotate_if_enabled rot))
          else if status r = 404 then (Return [], rot)
          else (Retry, rot))"

text \<open>
  The loop of \<^verbatim>\<open>fetch_with_retries\<close>, entered with \<^verbatim>\<open>retries\<close> attempts behind it.
  \<open>env i\<close> is what attempt \<open>i\<close> delivers and \<open>clock i\<close> the time at it. The result
  is the returned text or the exception that leaves the call, the number of requests
  sent, and the rotator.
\<close>

function fetch_with_retries_from ::
  "(string \<Rightarrow> nat) \<Rightarrow> (nat \<Rightarrow> nat) \<Rightarrow> (nat \<Rightarrow> outcome) \<Rightarrow> nat \<Rightarrow> nat \<Rightarrow> proxy_rotator
     \<Rightarrow> (error + string) \<times> nat \<times> proxy_rotator" where
  "fetch_with_retries_from md5 clock env max_retries retries rot =
     (if retries < max_retries then
        (let rot = (if enabled rot then record_request md5 (clock retries) rot else rot)
         in case fetch_attempt (env retries) rot of
              (Return x, rot) \<Rightarrow> (Inr x, Suc retries, rot)
            | (Raise e, rot) \<Rightarrow> (Inl e, Suc retries, rot)
            | (Retry, rot) \<Rightarrow>
                fetch_with_retries_from md5 clock env max_retries (Suc retries) rot)
      else (Inr [], retries, rot))"
  by pat_completeness auto
termination
  by (relation "measure (\<lambda>(md5, clock, env, max_retries, retries, rot). max_retries - retries)")
    auto

declare fetch_with_retries_from.simps [simp del]

definition fetch_with_retries ::
  "(string \<Rightarrow> nat) \<Rightarrow> (nat \<Rightarrow> nat) \<Rightarrow> (nat \<Rightarrow> outcome) \<Rightarrow> proxy_rotator
     \<Rightarrow> (error + string) \<times> nat \<times> proxy_rotator" where
  "fetch_with_retries md5 clock env rot = fetch_with_retries_from md5 clock env 5 0 rot"

text \<open>
  The \<^verbatim>\<open>except\<close> clauses of \<^verbatim>\<open>github_api\<close>, in their order, applied to an exception
  raised in the body of its \<^verbatim>\<open>try\<close> statement.
\<close>

definition github_api_except ::
  "error \<Rightarrow> proxy_rotator \<Rightarrow> response option action \<times> proxy_rotator" where
  "github_api_except e rot =
     (if e = NetworkError then (Retry, rotate_if_enabled rot)
      else if e = HTTP404NotFoundError then (Return None, rot)
      else (Raise e, rot))"

text \<open>\<^verbatim>\<open>time.sleep(secs)\<close> raises \<^verbatim>\<open>ValueError\<close> for a negative argument.\<close>

definition time_sleep :: "int \<Rightarrow> error option" where
  "time_sleep secs = (if secs < 0 then Some ValueError else None)"

text \<open>
  The body of the \<^verbatim>\<open>try\<close> statement of \<^verbatim>\<open>github_api\<close>; \<open>now\<close> is the clock at this
  attempt. \<^verbatim>\<open>update_env_proxies\<close> is \<^verbatim>\<open>get_proxies\<close> followed by the export of the
  proxy to the process environment, which the fetcher does not read back.
\<close>

definition github_api_attempt ::
  "(string \<Rightarrow> nat) \<Rightarrow> nat \<Rightarrow> outcome \<Rightarrow> proxy_rotator
     \<Rightarrow> response option action \<times> proxy_rotator" where
  "github_api_attempt md5 now out rot =
     (case out of
        Raised e \<Rightarrow> github_api_except e rot
      | Response r \<Rightarrow>
          if status r = 200 then (Return (Some r), rot)
          else if status r = 403 \<and> headers r ''X-RateLimit-Remaining'' \<noteq> None then
            (case py_int (the (headers r ''X-RateLimit-Remaining'')) of
               None \<Rightarrow> github_api_except ValueError rot
             | Some remaining \<Rightarrow>
                 if remaining = 0 then
                   (if enabled rot
                    then (Retry, snd (get_proxies md5 now (force_rotate rot)))
                    else (case headers r ''X-RateLimit-Reset'' of
                            None \<Rightarrow> github_api_except KeyError rot
                          | Some v \<Rightarrow>
                              (case py_int v of
                                 None \<Rightarrow> github_api_except ValueError rot
                               | Some reset_time \<Rightarrow>
                                   (case time_sleep (reset_time - int now + 1) of
                                      Some e \<Rightarrow> github_api_except e rot
                                    | None \<Rightarrow> (Retry, rot)))))
                 else (case json_error r of
                         Some e \<Rightarrow> github_api_except e rot
                       | None \<Rightarrow> (Return (Some r), rot)))
          else if status r = 503 \<or> status r = 502 then (Retry, rotate_if_enabled rot)
          else if status r = 429 then
            (case (case headers r ''Retry-After'' of
                     None \<Rightarrow> Some 60 | Some v \<Rightarrow> py_int v) of
               None \<Rightarrow> github_api_except ValueError rot
             | Some retry_after \<Rightarrow>
                 if enabled rot
                 then (Retry, snd (get_proxies md5 now (force_rotate rot)))
                 else (case time_sleep retry_after of
                         Some e \<Rightarrow> github_api_except e rot
                       | None \<Rightarrow> (Retry, rot)))
          else (Retry, rot))"

text \<open>
  The loop of \<^verbatim>\<open>github_api\<close>: the result is the returned response (\<^verbatim>\<open>None\<close> for
  the failure sentinel) or the exception that leaves the call, the number of requests
  sent, and the rotator.
\<close>

function github_api_from ::
  "(string \<Rightarrow> nat) \<Rightarrow> (nat \<Rightarrow> nat) \<Rightarrow> (nat \<Rightarrow> outcome) \<Rightarrow> nat \<Rightarrow> nat \<Rightarrow> proxy_rotator
     \<Rightarrow> (error + response option) \<times> nat \<times> proxy_rotator" where
  "github_api_from md5 clock env max_retries retries rot =
     (if retries < max_retries then
        (let rot = (if enabled rot then record_request md5 (clock retries) rot else rot)
         in case github_api_attempt md5 (clock retries) (env retries) rot of
              (Return x, rot) \<Rightarrow> (Inr x, Suc retries, rot)
            | (Raise e, rot) \<Rightarrow> (Inl e, Suc retries, rot)
            | (Retry, rot) \<Rightarrow> github_api_from md5 clock env max_retries (Suc retries) rot)
      else (Inr None, retries, rot))"
  by pat_completeness auto
termination
  by (relation "measure (\<lambda>(md5, clock, env, max_retries, retries, rot). max_retries - retries)")
    auto

declare github_api_from.simps [simp del]

definition github_api ::
  "(string \<Rightarrow> nat) \<Rightarrow> (nat \<Rightarrow> nat) \<Rightarrow> (nat \<Rightarrow> outcome) \<Rightarrow> proxy_rotator
     \<Rightarrow> (error + response option) \<times> nat \<times> proxy_rotator" where
  "github_api md5 clock env rot = github_api_from md5 clock env 5 0 rot"

text \<open>A response with status 404, and a 429 response whose \<^verbatim>\<open>Retry-After\<close> is a date.\<close>

definition not_found_response :: response where
  "not_found_response =
     \<lparr>status = 404, headers = Map.empty, body = ''Not Found'', json_error = None\<rparr>"

definition dated_retry_response :: response where
  "dated_retry_response =
     \<lparr>status = 429,
      headers = [''Retry-After'' \<mapsto> ''Wed, 21 Oct 2015 07:28:00 GMT''],
      body = [], json_error = None\<rparr>"

definition ok_response :: response where
  "ok_response = \<lparr>status = 200, headers = Map.empty, body = ''[]'', json_error = None\<rparr>"

section \<open>HarvestPipeline: \<^verbatim>\<open>build_dataset_async.py\<close>\<close>

text \<open>
  A pull request of the work list, with the keys the pipeline reads:
  \<^verbatim>\<open>pull["base"]["repo"]["full_name"]\<close>, \<^verbatim>\<open>number\<close>, \<^verbatim>\<open>merged_at\<close> (JSON null is
  \<open>None\<close>), \<^verbatim>\<open>resolved_issues\<close> (\<open>None\<close> when the key is absent), \<^verbatim>\<open>pull["base"]["sha"]\<close>
  and \<^verbatim>\<open>created_at\<close>.
\<close>

record pull =
  full_name :: string
  number :: nat
  merged_at :: "string option"
  resolved_issues :: "string list option"
  base_sha :: string
  created_at :: string

text \<open>
  The dictionary \<^verbatim>\<open>create_instance\<close> returns, one field per key: \<^verbatim>\<open>repo\<close>,
  \<^verbatim>\<open>pull_number\<close>, \<^verbatim>\<open>instance_id\<close>, \<^verbatim>\<open>issue_numbers\<close>, \<^verbatim>\<open>base_commit\<close>, \<^verbatim>\<open>patch\<close>,
  \<^verbatim>\<open>test_patch\<close>, \<^verbatim>\<open>problem_statement\<close>, \<^verbatim>\<open>hints_text\<close>, \<^verbatim>\<open>created_at\<close>.
\<close>

record task_instance =
  inst_repo :: string
  inst_pull_number :: nat
  instance_id :: string
  issue_numbers :: "string list"
  base_commit :: string
  inst_patch :: string
  inst_test_patch :: string
  problem_statement :: string
  hints_text :: string
  inst_created_at :: string

text \<open>
  The files of a run: the superset output (\<^verbatim>\<open>output + ".all"\<close>) and the filtered
  output, each as the list of the records on its lines, and
  \<^verbatim>\<open>successful_requests.txt\<close> as the list of its lines. \<open>diff_requests\<close> is not a
  file: it lists the instance ids whose diff the run has asked the fetcher for.
\<close>

record store =
  all_output :: "task_instance list"
  output_file :: "task_instance list"
  successful_requests :: "string list"
  diff_requests :: "string list"

text \<open>\<^verbatim>\<open>s.replace(c, new)\<close> for a one-character \<open>c\<close>.\<close>

definition replace_char :: "char \<Rightarrow> string \<Rightarrow> string \<Rightarrow> string" where
  "replace_char c new s = concat (map (\<lambda>x. if x = c then new else [x]) s)"

definition make_instance_id :: "string \<Rightarrow> nat \<Rightarrow> string" where
  "make_instance_id repo_name n = replace_char (CHR ''/'') ''__'' (repo_name @ ''-'' @ str_nat n)"

text \<open>
  What the network delivers for one candidate in one run: the result of
  \<^verbatim>\<open>fetch_with_retries\<close> on its diff url, and the result of
  \<^verbatim>\<open>extract_problem_statement_and_hints\<close> (both collecting modes call the same
  function); either may be an exception.
\<close>

type_synonym fetched = "(error + string) \<times> (error + string \<times> string)"

text \<open>
  \<^verbatim>\<open>create_instance\<close> for the repository object built from \<open>owner\<close> and
  \<open>repo_name\<close>: the instance or the exception, and the store.
\<close>

definition create_instance ::
  "(string \<Rightarrow> string) \<Rightarrow> string option \<Rightarrow> string \<Rightarrow> string \<Rightarrow> pull \<Rightarrow> fetched \<Rightarrow> store
     \<Rightarrow> (error + task_instance) \<times> store" where
  "create_instance lexer language owner repo_name p f st =
     (let iid = make_instance_id (owner @ ''/'' @ repo_name) (number p);
          st = st\<lparr>diff_requests := diff_requests st @ [iid]\<rparr>
      in case fst f of
           Inl e \<Rightarrow> (Inl e, st)
         | Inr diff_text \<Rightarrow>
             (case extract_patches lexer language repo_name diff_text of
                (patch, test_patch, request_success) \<Rightarrow>
                  (let st = (if request_success
                             then st\<lparr>successful_requests := successful_requests st @ [iid]\<rparr>
                             else st)
                   in case resolved_issues p of
                        None \<Rightarrow> (Inl KeyError, st)
                      | Some issues \<Rightarrow>
                          (case snd f of
                             Inl e \<Rightarrow> (Inl e, st)
                           | Inr (statement, hints) \<Rightarrow>
                               (Inr \<lparr>inst_repo = owner @ ''/'' @ repo_name,
                                     inst_pull_number = number p,
                                     instance_id = iid,
                                     issue_numbers = issues,
                                     base_commit = base_sha p,
                                     inst_patch = patch,
                                     inst_test_patch = test_patch,
                                     problem_statement = statement,
                                     hints_text = hints,
                                     inst_created_at = created_at p\<rparr>, st)))))"

definition is_valid_pull :: "pull \<Rightarrow> bool" where
  "is_valid_pull p =
     (if merged_at p = None then False
      else if resolved_issues p = None \<or> length (the (resolved_issues p)) < 1 then False
      else True)"

definition is_valid_instance :: "task_instance \<Rightarrow> bool" where
  "is_valid_instance i =
     (if inst_patch i = [] then False
      else if problem_statement i = [] then False
      else True)"

definition has_test_patch :: "task_instance \<Rightarrow> bool" where
  "has_test_patch i = (if strip (inst_test_patch i) = [] then False else True)"

text \<open>
  \<^verbatim>\<open>process_single_pr\<close>. \<^verbatim>\<open>datetime.strptime\<close> with the format of the pipeline is a
  parameter: it gives the instant a timestamp denotes, or \<open>None\<close> where it raises
  \<^verbatim>\<open>ValueError\<close>. An exception inside the \<^verbatim>\<open>try\<close> statement is logged and leaves the
  store as it is at that point.
\<close>

definition process_single_pr ::
  "(string \<Rightarrow> string) \<Rightarrow> string option \<Rightarrow> (string \<Rightarrow> int option) \<Rightarrow> int
     \<Rightarrow> string set \<Rightarrow> string set \<Rightarrow> string \<Rightarrow> string \<Rightarrow> pull \<Rightarrow> fetched \<Rightarrow> store \<Rightarrow> store" where
  "process_single_pr lexer language strptime cutoff_date seen_prs successful_instances
       owner repo_name p f st =
     (let iid = make_instance_id (full_name p) (number p)
      in if iid \<in> seen_prs \<or> iid \<in> successful_instances then st
         else if \<not> is_valid_pull p then st
         else
           (case create_instance lexer language owner repo_name p f st of
              (Inl e, st) \<Rightarrow> st
            | (Inr i, st) \<Rightarrow>
                (case strptime (inst_created_at i) of
                   None \<Rightarrow> st
                 | Some t \<Rightarrow>
                     if t \<ge> cutoff_date then st
                     else if is_valid_instance i then
                       (let st = st\<lparr>all_output := all_output st @ [i]\<rparr>
                        in if has_test_patch i
                           then st\<lparr>output_file := output_file st @ [i]\<rparr>
                           else st)
                     else st)))"

text \<open>
  The tasks of a run, in the order \<^verbatim>\<open>main\<close> creates them: the pulls grouped by
  repository name, repositories in the order of their first pull, each pull with the
  \<^verbatim>\<open>owner\<close> and \<^verbatim>\<open>name\<close> of its repository object.
  \<^verbatim>\<open>owner, name = repo_name.split("/")\<close> raises \<^verbatim>\<open>ValueError\<close> unless the name has
  exactly two parts.
\<close>

definition group_by_repo :: "pull list \<Rightarrow> pull list" where
  "group_by_repo pulls =
     concat (map (\<lambda>n. filter (\<lambda>p. full_name p = n) pulls)
                 (rev (remdups (rev (map full_name pulls)))))"

definition task_of :: "pull \<Rightarrow> (string \<times> string \<times> pull) option" where
  "task_of p =
     (case split_slash (full_name p) of
        [owner, repo_name] \<Rightarrow> Some (owner, repo_name, p)
      | _ \<Rightarrow> None)"

text \<open>
  The tasks run one after the other here, the \<open>k\<close>-th one with what the network
  delivers for it, \<open>world k\<close>. In the source they run concurrently under a semaphore;
  the two sets a task consults are fixed before the first task starts and every write
  is an append under the lock, so another schedule permutes the lines appended to a
  file and changes nothing else.
\<close>

definition run_tasks ::
  "(string \<Rightarrow> string) \<Rightarrow> string option \<Rightarrow> (string \<Rightarrow> int option) \<Rightarrow> int
     \<Rightarrow> string set \<Rightarrow> string set \<Rightarrow> (nat \<Rightarrow> fetched)
     \<Rightarrow> (nat \<times> string \<times> string \<times> pull) list \<Rightarrow> store \<Rightarrow> store" where
  "run_tasks lexer language strptime cutoff_date seen_prs successful_instances world tasks st =
     foldl (\<lambda>st (k, owner, repo_name, p).
              process_single_pr lexer language strptime cutoff_date seen_prs
                successful_instances owner repo_name p (world k) st)
       st tasks"

text \<open>
  \<^verbatim>\<open>main\<close> on the parsed work list: the exception that ends the run before any task
  has started, if there is one, and the store the run leaves. The startup reads the
  ledger lines into \<^verbatim>\<open>successful_instances\<close> and replays the superset file into
  \<^verbatim>\<open>seen_prs\<close>; neither set changes afterwards.
\<close>

definition main ::
  "(string \<Rightarrow> string) \<Rightarrow> string option \<Rightarrow> (string \<Rightarrow> int option) \<Rightarrow> string
     \<Rightarrow> string option \<Rightarrow> string option \<Rightarrow> pull list \<Rightarrow> (nat \<Rightarrow> fetched) \<Rightarrow> store
     \<Rightarrow> error option \<times> store" where
  "main lexer language strptime cutoff_text token env_token pulls world st =
     (case strptime cutoff_text of
        None \<Rightarrow> (Some ValueError, st)
      | Some cutoff_date \<Rightarrow>
          if token = None \<and> env_token = None then (Some KeyError, st)
          else
            (let successful_instances = set (map strip (successful_requests st))
             in if list_ex (\<lambda>i. strptime (inst_created_at i) = None) (all_output st)
                then (Some ValueError, st)
                else
                  (let seen_prs = set (map instance_id (all_output st));
                       grouped = group_by_repo pulls
                   in if list_ex (\<lambda>p. task_of p = None) grouped
                      then (Some ValueError, st)
                      else
                        (let tasks = map (\<lambda>p. the (task_of p)) grouped
                         in (None,
                             run_tasks lexer language strptime cutoff_date seen_prs
                               successful_instances world
                               (zip [0..<length tasks] tasks) st)))))"


text \<open>
  Samples: the candidate of the specification's scenario, the same candidate created
  after the cutoff, the instants of the three timestamps involved (seconds since 1970),
  a diff that touches \<^verbatim>\<open>src/x.py\<close> only, and the record the pipeline builds from it.
\<close>

definition sample_strptime :: "string \<Rightarrow> int option" where
  "sample_strptime s =
     (if s = ''2024-01-01T00:00:00Z'' then Some 1704067200
      else if s = ''2025-01-01T00:00:00Z'' then Some 1735689600
      else if s = ''2025-06-01T00:00:00Z'' then Some 1748736000
      else None)"

definition sample_pull :: pull where
  "sample_pull =
     \<lparr>full_name = ''o/r'', number = 5, merged_at = Some ''2024-01-01T00:00:00Z'',
      resolved_issues = Some [''9''], base_sha = ''0a1b2c3'',
      created_at = ''2024-01-01T00:00:00Z''\<rparr>"

definition late_pull :: pull where
  "late_pull = sample_pull\<lparr>created_at := ''2025-06-01T00:00:00Z''\<rparr>"

definition empty_store :: store where
  "empty_store =
     \<lparr>all_output = [], output_file = [], successful_requests = [], diff_requests = []\<rparr>"

definition src_diff :: string where
  "src_diff = join_lines (src_header # src_body)"

definition src_patch :: string where
  "src_patch = render_patch [src_header, ''--- a/src/x.py'', ''+++ b/src/x.py'', ''+x = 1'']"

definition sample_statement :: string where
  "sample_statement = ''Crash on start'' @ [newline] @ ''It crashes.'' @ [newline]"

definition sample_instance :: task_instance where
  "sample_instance =
     \<lparr>inst_repo = ''o/r'', inst_pull_number = 5, instance_id = ''o__r-5'',
      issue_numbers = [''9''], base_commit = ''0a1b2c3'', inst_patch = src_patch,
      inst_test_patch = [], problem_statement = sample_statement, hints_text = [],
      inst_created_at = ''2024-01-01T00:00:00Z''\<rparr>"

definition late_instance :: task_instance where
  "late_instance = sample_instance\<lparr>inst_created_at := ''2025-06-01T00:00:00Z''\<rparr>"

section \<open>Properties\<close>

subsection \<open>The scanning loop\<close>

lemma length_running_flags: "length (running_flags hdr f ls) = length ls"
  by (induction ls arbitrary: f) simp_all

lemma routed_Nil: "routed g [] [] = []"
  by (simp add: routed_def)

lemma routed_Cons:
  "routed g (f # fs) (l # ls) =
     (if f = Some g \<and> \<not> startswith l ''index '' then l # routed g fs ls else routed g fs ls)"
  by (simp add: routed_def)

lemma classify_line_routed:
  "classify_line hdr (f, c, t) l =
     (next_flag hdr f l,
      c @ routed Diff [next_flag hdr f l] [l],
      t @ routed Test [next_flag hdr f l] [l])"
proof (cases "next_flag hdr f l")
  case None
  then show ?thesis
    by (auto simp: classify_line_def next_flag_def routed_def Let_def split: if_splits)
next
  case (Some g)
  then show ?thesis
    by (cases g) (auto simp: classify_line_def next_flag_def routed_def Let_def split: if_splits)
qed

lemma scan_lines_Cons:
  "scan_lines hdr st (l # ls) = scan_lines hdr (classify_line hdr st l) ls"
  by (simp add: scan_lines_def)

lemma scan_lines_routed:
  "scan_lines hdr (f, c, t) ls =
     (last (f # running_flags hdr f ls),
      c @ routed Diff (running_flags hdr f ls) ls,
      t @ routed Test (running_flags hdr f ls) ls)"
proof (induction ls arbitrary: f c t)
  case Nil
  show ?case by (simp add: scan_lines_def routed_Nil)
next
  case (Cons l ls)
  show ?case
    unfolding scan_lines_Cons classify_line_routed Cons.IH
    by (simp add: routed_Cons routed_Nil)
qed

lemma routed_disjoint_length:
  "length fs = length ls \<Longrightarrow>
     length (routed Diff fs ls) + length (routed Test fs ls) \<le> length ls"
  by (induction fs ls rule: list_induct2) (simp_all add: routed_Nil routed_Cons)

text \<open>
  Claim C9 (stream disjointness). For every header rule (so for every language profile,
  in \<^verbatim>\<open>utils.py\<close> and in \<^verbatim>\<open>utils_async.py\<close>) and every list of input lines, the
  scan appends to the code stream exactly the lines read under the flag
  \<^verbatim>\<open>"diff"\<close> and to the test stream exactly the lines read under the flag
  \<^verbatim>\<open>"test"\<close>, blob-index lines left out of both. A line is read under one flag, so it
  reaches at most one stream, a line read under \<^verbatim>\<open>None\<close> reaches neither, and the two
  streams together hold no more lines than the input.
\<close>

theorem stream_disjointness:
  "scan_lines hdr (None, [], []) ls =
     (last (None # running_flags hdr None ls),
      routed Diff (running_flags hdr None ls) ls,
      routed Test (running_flags hdr None ls) ls)
   \<and> length (routed Diff (running_flags hdr None ls) ls)
       + length (routed Test (running_flags hdr None ls) ls) \<le> length ls"
  by (simp add: scan_lines_routed routed_disjoint_length length_running_flags)

subsection \<open>The Java profile's test-file promotion\<close>

lemma foo_words: "words_flag foo_header = Diff"
  by code_simp

lemma foo_file_name: "last (split_slash foo_header) = ''FooTest.java''"
  by code_simp

lemma foo_split: "split_lines foo_test_diff = [foo_header, foo_body]"
  by code_simp

lemma foo_facts:
  "test_named ''FooTest.java'' = False"
  "test_named (remove_all ''.java'' ''FooTest.java'') = True"
  "endswith ''FooTest.java'' ''.java'' = True"
  "endswith foo_test_diff [newline] = False"
  "foo_test_diff \<noteq> []"
  "startswith foo_header ''index '' = False"
  "startswith foo_header ''diff --git a/'' = True"
  "startswith foo_body ''index '' = False"
  "startswith foo_body ''diff --git a/'' = False"
  by code_simp+

lemma foo_header_sync:
  "header_flag_sync lexer (Some ''java'') name foo_header = None
   \<or> header_flag_sync lexer (Some ''java'') name foo_header = Some Diff"
  by (simp add: header_flag_sync_def java_rule_sync_def foo_words foo_file_name foo_facts
        java_accept_def Let_def)

lemma foo_header_async: "header_flag lexer (Some ''java'') name foo_header = Some Test"
  by (simp add: header_flag_def java_rule_def foo_words foo_file_name foo_facts
        java_accept_def Let_def)

lemma foo_render: "render_patch [foo_header, foo_body] = foo_test_diff @ [newline]"
  by (simp add: render_patch_def foo_test_diff_def)

lemma foo_async_eval:
  "extract_patches lexer (Some ''java'') name foo_test_diff
     = ([], foo_test_diff @ [newline], True)"
  by (simp add: extract_patches_def classify_text_def foo_split foo_facts scan_lines_def
        classify_line_def foo_header_async foo_render)
     (simp add: render_patch_def)

lemma foo_sync_eval:
  "snd (extract_patches_sync lexer (Some ''java'') name foo_test_diff) = ([], True)"
  using foo_header_sync [of lexer name]
  by (auto simp add: extract_patches_sync_def classify_text_def foo_split foo_facts
        scan_lines_def classify_line_def render_patch_def)

text \<open>
  Claim C3 (Java profile test-file promotion, in both classifiers). The diff of
  \<^verbatim>\<open>src/FooTest.java\<close> names a file whose name without \<^verbatim>\<open>.java\<close> ends in
  \<^verbatim>\<open>Test\<close>. Whatever the lexer lookup and the repository name are, the classifier of
  \<^verbatim>\<open>utils_async.py\<close> sends the whole diff to the test stream, and the classifier of
  \<^verbatim>\<open>utils.py\<close> sends nothing to the test stream: there the stripped name is thrown
  away and the suffix test reads \<^verbatim>\<open>FooTest.java\<close>.
\<close>

theorem java_promotion_sync_misses:
  "extract_patches lexer (Some ''java'') name foo_test_diff
     = ([], foo_test_diff @ [newline], True)
   \<and> snd (extract_patches_sync lexer (Some ''java'') name foo_test_diff) = ([], True)"
  by (simp add: foo_async_eval foo_sync_eval)

subsection \<open>Splitting and joining lines, header tokens\<close>

lemma split_on_sep:
  "\<forall>c\<in>set x. \<not> P c \<Longrightarrow> P c \<Longrightarrow> split_on P (x @ c # y) = x # split_on P y"
  by (induction x) simp_all

lemma split_on_not_Nil: "split_on P s \<noteq> []"
  by (induction s) (simp_all add: Let_def)

lemma token_in_split:
  "P c1 \<Longrightarrow> P c2 \<Longrightarrow> \<forall>c\<in>set w. \<not> P c \<Longrightarrow>
     w \<in> set (tl (split_on P (a @ c1 # w @ c2 # b)))"
proof (induction a)
  case Nil
  then show ?case by (simp add: split_on_sep)
next
  case (Cons x a)
  then have "w \<in> set (tl (split_on P (a @ c1 # w @ c2 # b)))" by simp
  then show ?case
    by (auto simp: Let_def dest: list.set_sel(2) [OF split_on_not_Nil, rotated])
qed

lemma contains_decomp: "contains sub s \<Longrightarrow> \<exists>a b. s = a @ sub @ b"
proof (induction s)
  case Nil
  then show ?case by simp
next
  case (Cons c cs)
  show ?case
  proof (cases "prefix sub (c # cs)")
    case True
    then obtain b where "c # cs = sub @ b" by (auto simp: prefix_def)
    then have "c # cs = [] @ sub @ b" by simp
    then show ?thesis by blast
  next
    case False
    with Cons obtain a b where "cs = a @ sub @ b" by auto
    then have "c # cs = (c # a) @ sub @ b" by simp
    then show ?thesis by blast
  qed
qed

lemma lower_tests: "lower (a @ ''/tests/'' @ b) = lower a @ CHR ''/'' # ''tests'' @ CHR ''/'' # lower b"
  by (simp add: lower_def lower_char_def)

lemma tests_component_flag: "contains ''/tests/'' h \<Longrightarrow> words_flag h = Test"
proof -
  assume "contains ''/tests/'' h"
  then obtain a b where h: "h = a @ ''/tests/'' @ b" by (auto dest: contains_decomp)
  let ?P = "\<lambda>c. c = CHR '' '' \<or> c = CHR ''_'' \<or> c = CHR ''/'' \<or> c = CHR ''.''"
  have "''tests'' \<in> set (tl (split_on ?P (lower a @ CHR ''/'' # ''tests'' @ CHR ''/'' # lower b)))"
    by (rule token_in_split) simp_all
  then have "''tests'' \<in> set (split_on ?P (lower h))"
    unfolding h lower_tests by (rule list.set_sel(2) [OF split_on_not_Nil])
  then show ?thesis by (simp add: words_flag_def re_split_words_def)
qed

subsection \<open>Scanning a file block\<close>

lemma header_not_index: "startswith h ''diff --git a/'' \<Longrightarrow> \<not> startswith h ''index ''"
  by (auto simp: startswith_def prefix_def)

lemma scan_body:
  "\<forall>l\<in>set b. \<not> startswith l ''diff --git a/'' \<Longrightarrow>
   scan_lines hdr (Some g, c, t) b =
     (Some g,
      c @ (if g = Diff then filter not_index b else []),
      t @ (if g = Test then filter not_index b else []))"
proof (induction b arbitrary: c t)
  case Nil
  then show ?case by (simp add: scan_lines_def)
next
  case (Cons l b)
  then have IH: "\<And>c t. scan_lines hdr (Some g, c, t) b =
     (Some g, c @ (if g = Diff then filter not_index b else []),
      t @ (if g = Test then filter not_index b else []))"
    and l: "\<not> startswith l ''diff --git a/''" by simp_all
  have step: "classify_line hdr (Some g, c, t) l =
      (Some g, c @ (if g = Diff \<and> not_index l then [l] else []),
       t @ (if g = Test \<and> not_index l then [l] else []))"
    using l by (cases g) (simp_all add: classify_line_def not_index_def)
  show ?case
    unfolding scan_lines_Cons step IH by (cases g) simp_all
qed

lemma scan_block:
  assumes "hdr h = Some g" "startswith h ''diff --git a/''"
    and "\<forall>l\<in>set b. \<not> startswith l ''diff --git a/''"
  shows "scan_lines hdr (f, c, t) (h # b) =
     (Some g,
      c @ (if g = Diff then h # filter not_index b else []),
      t @ (if g = Test then h # filter not_index b else []))"
proof -
  have step: "classify_line hdr (f, c, t) h =
      (Some g, c @ (if g = Diff then [h] else []), t @ (if g = Test then [h] else []))"
    using assms(1,2) header_not_index [OF assms(2)]
    by (cases g) (simp_all add: classify_line_def)
  show ?thesis
    unfolding scan_lines_Cons step scan_body [OF assms(3)] by (cases g) simp_all
qed

lemma scan_lines_append:
  "scan_lines hdr st (xs @ ys) = scan_lines hdr (scan_lines hdr st xs) ys"
  by (simp add: scan_lines_def)

lemma scan_two_blocks:
  assumes "hdr h1 = Some g1" "startswith h1 ''diff --git a/''"
    and "hdr h2 = Some g2" "startswith h2 ''diff --git a/''"
    and "\<forall>l\<in>set (b1 @ b2). \<not> startswith l ''diff --git a/''"
  shows "scan_lines hdr (None, [], []) ((h1 # b1) @ (h2 # b2)) =
     (Some g2,
      (if g1 = Diff then h1 # filter not_index b1 else [])
        @ (if g2 = Diff then h2 # filter not_index b2 else []),
      (if g1 = Test then h1 # filter not_index b1 else [])
        @ (if g2 = Test then h2 # filter not_index b2 else []))"
proof -
  from assms(5) have b1: "\<forall>l\<in>set b1. \<not> startswith l ''diff --git a/''"
    and b2: "\<forall>l\<in>set b2. \<not> startswith l ''diff --git a/''" by auto
  have 1: "scan_lines hdr (None, [], []) (h1 # b1) =
     (Some g1, [] @ (if g1 = Diff then h1 # filter not_index b1 else []),
      [] @ (if g1 = Test then h1 # filter not_index b1 else []))"
    using assms(1,2) b1 by (rule scan_block)
  have 2: "\<And>f c t. scan_lines hdr (f, c, t) (h2 # b2) =
     (Some g2, c @ (if g2 = Diff then h2 # filter not_index b2 else []),
      t @ (if g2 = Test then h2 # filter not_index b2 else []))"
    using assms(3,4) b2 by (rule scan_block)
  show ?thesis
    unfolding scan_lines_append 1 2 by simp
qed

lemma test_header_async:
  "words_flag h = Test \<Longrightarrow> header_flag lexer language name h = Some Test"
  by (simp add: header_flag_def python_rule_def js_rule_def java_rule_def java_accept_def Let_def)

lemma test_header_sync:
  "words_flag h = Test \<Longrightarrow> header_flag_sync lexer language name h = Some Test"
  by (simp add: header_flag_sync_def python_rule_def js_rule_def java_rule_sync_def
        java_accept_def Let_def)

subsection \<open>Classification of a two-file diff\<close>

lemma remove_all_keep: "c \<noteq> CHR ''.'' \<Longrightarrow> remove_all ''.java'' (c # s) = c # remove_all ''.java'' s"
  by (subst remove_all.simps) simp

lemma remove_all_Test: "remove_all ''.java'' (''Test'' @ s) = ''Test'' @ remove_all ''.java'' s"
  by (simp add: remove_all_keep)

lemma suffix_last: "suffix a s \<Longrightarrow> a \<noteq> [] \<Longrightarrow> last s = last a"
  by (auto simp: suffix_def)

lemma java_name_sync:
  assumes "endswith fn ''.java''" and "test_named fn"
  shows "test_named (remove_all ''.java'' fn)"
proof -
  have l: "last fn = CHR ''a''"
    using assms(1) suffix_last [of "''.java''" fn] by (simp add: endswith_def)
  have "\<not> suffix ''Test'' fn"
    using l suffix_last [of "''Test''" fn] by auto
  moreover have "\<not> suffix ''Tests'' fn"
    using l suffix_last [of "''Tests''" fn] by auto
  ultimately have "prefix ''Test'' fn"
    using assms(2) by (auto simp: test_named_def startswith_def endswith_def prefix_def)
  then obtain s where "fn = ''Test'' @ s" by (auto simp: prefix_def)
  then have "remove_all ''.java'' fn = ''Test'' @ remove_all ''.java'' s"
    by (simp only: remove_all_Test)
  then show ?thesis by (simp add: test_named_def startswith_def)
qed

lemma words_flag_Diff: "no_test_token h \<Longrightarrow> words_flag h = Diff"
  by (simp add: no_test_token_def words_flag_def)

lemma code_header_async:
  assumes "no_test_token h" and "accepted_source lexer language name h"
    and "language = Some ''java'' \<longrightarrow> \<not> java_test_named h"
  shows "header_flag lexer language name h = Some Diff"
  using assms words_flag_Diff [OF assms(1)]
  by (auto simp: header_flag_def accepted_source_def python_rule_def js_rule_def
        java_rule_def java_accept_def java_test_named_def Let_def split: if_splits)

lemma code_header_sync:
  assumes "no_test_token h" and "accepted_source lexer language name h"
    and "language = Some ''java'' \<longrightarrow> \<not> java_test_named h"
  shows "header_flag_sync lexer language name h = Some Diff"
  using assms words_flag_Diff [OF assms(1)] java_name_sync [of "last (split_slash h)"]
  by (auto simp: header_flag_sync_def accepted_source_def python_rule_def js_rule_def
        java_rule_sync_def java_accept_def java_test_named_def Let_def split: if_splits)

lemma classify_text_lines:
  assumes "scan_lines hdr (None, [], []) (text_lines p) = (f, c, t)" and "p \<noteq> []"
  shows "classify_text hdr p = (render_patch c, render_patch t, True)"
  using assms by (simp add: classify_text_def text_lines_def)

lemma text_lines_Nil: "text_lines [] = [[]]"
  by (simp add: text_lines_def split_lines_def endswith_def)

lemma round_trip_lines:
  assumes "hdr h1 = Some Test" "startswith h1 ''diff --git a/''"
    and "hdr h2 = Some Diff" "startswith h2 ''diff --git a/''"
    and "\<forall>l\<in>set (b1 @ b2). \<not> startswith l ''diff --git a/''"
    and "text_lines p = (h1 # b1) @ (h2 # b2) \<or> text_lines p = (h2 # b2) @ (h1 # b1)"
  shows "classify_text hdr p
           = (render_patch (h2 # filter not_index b2),
              render_patch (h1 # filter not_index b1), True)"
proof -
  have p: "p \<noteq> []" using assms(6) by (auto simp: text_lines_Nil)
  have a: "scan_lines hdr (None, [], []) ((h1 # b1) @ (h2 # b2))
      = (Some Diff, h2 # filter not_index b2, h1 # filter not_index b1)"
    using scan_two_blocks [OF assms(1,2,3,4,5)] by simp
  have 5: "\<forall>l\<in>set (b2 @ b1). \<not> startswith l ''diff --git a/''" using assms(5) by auto
  have b: "scan_lines hdr (None, [], []) ((h2 # b2) @ (h1 # b1))
      = (Some Test, h2 # filter not_index b2, h1 # filter not_index b1)"
    using scan_two_blocks [OF assms(3,4,1,2) 5] by simp
  from assms(6) show ?thesis
  proof
    assume "text_lines p = (h1 # b1) @ (h2 # b2)"
    then show ?thesis using a p by (intro classify_text_lines) simp_all
  next
    assume "text_lines p = (h2 # b2) @ (h1 # b1)"
    then show ?thesis using b p by (intro classify_text_lines) simp_all
  qed
qed
text \<open>
  Claim C2 (patch classification round-trip), as amended. Take a diff text whose
  lines are exactly two file blocks, in either order: one whose header contains
  \<^verbatim>\<open>/tests/\<close>, so that its path has a component \<^verbatim>\<open>tests\<close>, and one whose header
  has no test marker among its tokens, names a file of a type the language profile
  accepts and, in the Java profile, is not a \<^verbatim>\<open>.java\<close> file whose name without the
  extension starts or ends with \<^verbatim>\<open>Test\<close> or \<^verbatim>\<open>Tests\<close>; a file under \<^verbatim>\<open>src/\<close>
  that meets these conditions is the case of the specification. Then, in
  \<^verbatim>\<open>utils_async.py\<close> and in \<^verbatim>\<open>utils.py\<close> alike, the test patch is exactly the header
  and the non-index lines of the first block, the code patch is exactly the header and
  the non-index lines of the second, and the success flag is set; no line starting
  with \<^verbatim>\<open>index \<close> reaches either patch.
\<close>

theorem classification_round_trip:
  assumes "text_lines p = (h1 # b1) @ (h2 # b2) \<or> text_lines p = (h2 # b2) @ (h1 # b1)"
    and "startswith h1 ''diff --git a/''" and "contains ''/tests/'' h1"
    and "startswith h2 ''diff --git a/''"
    and "no_test_token h2" and "accepted_source lexer language name h2"
    and "language = Some ''java'' \<longrightarrow> \<not> java_test_named h2"
    and "\<forall>l\<in>set (b1 @ b2). \<not> startswith l ''diff --git a/''"
  shows "extract_patches lexer language name p
           = (render_patch (h2 # filter not_index b2),
              render_patch (h1 # filter not_index b1), True)
       \<and> extract_patches_sync lexer language name p
           = (render_patch (h2 # filter not_index b2),
              render_patch (h1 # filter not_index b1), True)
       \<and> (\<forall>l\<in>set (h2 # filter not_index b2 @ h1 # filter not_index b1).
             \<not> startswith l ''index '')"
proof (intro conjI)
  have w: "words_flag h1 = Test" using assms(3) by (rule tests_component_flag)
  have t: "header_flag lexer language name h1 = Some Test"
    using w by (rule test_header_async)
  have ts: "header_flag_sync lexer language name h1 = Some Test"
    using w by (rule test_header_sync)
  have c: "header_flag lexer language name h2 = Some Diff"
    using assms(5,6,7) by (rule code_header_async)
  have cs: "header_flag_sync lexer language name h2 = Some Diff"
    using assms(5,6,7) by (rule code_header_sync)
  show "extract_patches lexer language name p
           = (render_patch (h2 # filter not_index b2),
              render_patch (h1 # filter not_index b1), True)"
    unfolding extract_patches_def
    using t assms(2) c assms(4) assms(8) assms(1) by (rule round_trip_lines)
  show "extract_patches_sync lexer language name p
           = (render_patch (h2 # filter not_index b2),
              render_patch (h1 # filter not_index b1), True)"
    unfolding extract_patches_sync_def
    using ts assms(2) cs assms(4) assms(8) assms(1) by (rule round_trip_lines)
  show "\<forall>l\<in>set (h2 # filter not_index b2 @ h1 # filter not_index b1).
          \<not> startswith l ''index ''"
    using header_not_index [OF assms(2)] header_not_index [OF assms(4)]
    by (auto simp: not_index_def)
qed

text \<open>
  The amended claim at the scenario of the specification, \<^verbatim>\<open>tests/x_test.py\<close> and
  \<^verbatim>\<open>src/x.py\<close> in the Python profile, the text without a final newline; and at a
  Java diff of \<^verbatim>\<open>src/main/Foo.java\<close> and \<^verbatim>\<open>src/tests/FooTest.java\<close>, the code file
  first.
\<close>

theorem classification_round_trip_witness:
  "extract_patches (\<lambda>s. ''Unknown'') (Some ''python'') ''r''
       (join_lines ((tests_header # tests_body) @ (src_header # src_body)))
     = (render_patch [src_header, ''--- a/src/x.py'', ''+++ b/src/x.py'', ''+x = 1''],
        render_patch [tests_header, ''--- a/tests/x_test.py'', ''+++ b/tests/x_test.py'',
                      ''+assert x == 1''],
        True)
   \<and> extract_patches_sync (\<lambda>s. ''java'') (Some ''java'') ''r''
       (render_patch ((java_src_header # java_src_body) @ (java_tests_header # java_tests_body)))
     = (render_patch [java_src_header, ''+class Foo {}''],
        render_patch [java_tests_header, ''+class FooTest {}''], True)"
proof -
  let ?p = "join_lines ((tests_header # tests_body) @ (src_header # src_body))"
  let ?q = "render_patch ((java_src_header # java_src_body) @ (java_tests_header # java_tests_body))"
  have 1: "text_lines ?p = (tests_header # tests_body) @ (src_header # src_body)
           \<or> text_lines ?p = (src_header # src_body) @ (tests_header # tests_body)"
    by code_simp
  have 2: "startswith tests_header ''diff --git a/''" by code_simp
  have 3: "contains ''/tests/'' tests_header" by code_simp
  have 4: "startswith src_header ''diff --git a/''" by code_simp
  have 5: "no_test_token src_header" by code_simp
  have 6: "accepted_source (\<lambda>s. ''Unknown'') (Some ''python'') ''r'' src_header"
    by code_simp
  have 7: "Some ''python'' = Some ''java'' \<longrightarrow> \<not> java_test_named src_header"
    by simp
  have 8: "\<forall>l\<in>set (tests_body @ src_body). \<not> startswith l ''diff --git a/''"
    by code_simp
  have 9: "filter not_index src_body = [''--- a/src/x.py'', ''+++ b/src/x.py'', ''+x = 1'']"
    by code_simp
  have 10: "filter not_index tests_body
              = [''--- a/tests/x_test.py'', ''+++ b/tests/x_test.py'', ''+assert x == 1'']"
    by code_simp
  have j1: "text_lines ?q = (java_tests_header # java_tests_body) @ (java_src_header # java_src_body)
           \<or> text_lines ?q = (java_src_header # java_src_body) @ (java_tests_header # java_tests_body)"
    by code_simp
  have j2: "startswith java_tests_header ''diff --git a/''" by code_simp
  have j3: "contains ''/tests/'' java_tests_header" by code_simp
  have j4: "startswith java_src_header ''diff --git a/''" by code_simp
  have j5: "no_test_token java_src_header" by code_simp
  have j6: "accepted_source (\<lambda>s. ''java'') (Some ''java'') ''r'' java_src_header"
    by code_simp
  have j7: "Some ''java'' = Some ''java'' \<longrightarrow> \<not> java_test_named java_src_header"
    by code_simp
  have j8: "\<forall>l\<in>set (java_tests_body @ java_src_body). \<not> startswith l ''diff --git a/''"
    by code_simp
  have j9: "filter not_index java_src_body = [''+class Foo {}'']" by code_simp
  have j10: "filter not_index java_tests_body = [''+class FooTest {}'']" by code_simp
  show ?thesis
    using classification_round_trip [OF 1 2 3 4 5 6 7 8]
      classification_round_trip [OF j1 j2 j3 j4 j5 j6 j7 j8]
    unfolding 9 10 j9 j10 by simp
qed

text \<open>
  Claim C2 as stated fails: \<^verbatim>\<open>src/test_x.py\<close> lies under \<^verbatim>\<open>src/\<close> and has the
  accepted extension of the Python profile, yet its header has the token \<^verbatim>\<open>test\<close>, so
  every line of that file goes to the test patch and the code patch is empty.
\<close>

theorem src_test_file_counterexample:
  "contains ''/src/'' src_test_header
   \<and> endswith (strip src_test_header) ''.py''
   \<and> extract_patches (\<lambda>s. ''Unknown'') (Some ''python'') ''r''
       (render_patch ((tests_header # tests_body) @ (src_test_header # src_body)))
     = ([], render_patch ((tests_header # filter not_index tests_body)
                           @ (src_test_header # filter not_index src_body)), True)"
  by code_simp

subsection \<open>IdentityRotator: rotation by request count\<close>


lemma digits_value_snoc: "digits_value (s @ [c]) = 10 * digits_value s + (of_char c - 48)"
  by (simp add: digits_value_def)

lemma digit_char_value: "d < 10 \<Longrightarrow> (of_char (digit_char d) :: nat) - 48 = d"
  by (simp add: digit_char_def)

lemma digits_value_str_nat: "digits_value (str_nat n) = n"
proof (induction n rule: str_nat.induct)
  case (1 n)
  show ?case
  proof (cases "n < 10")
    case True
    then show ?thesis
      by (subst str_nat.simps) (simp add: digits_value_def digit_char_value)
  next
    case False
    have "digits_value (str_nat n) = 10 * digits_value (str_nat (n div 10)) + (n mod 10)"
      using False by (subst str_nat.simps) (simp add: digits_value_snoc digit_char_value)
    then show ?thesis using 1 False by simp
  qed
qed

lemma digits_value_zeros: "digits_value (replicate k (CHR ''0'') @ s) = digits_value s"
  by (induction k) (simp_all add: digits_value_def)

lemma digits_value_zfill: "digits_value (zfill w (str_nat n)) = n"
  by (simp add: zfill_def digits_value_zeros digits_value_str_nat)

lemma session_id_differs:
  "zfill 8 (str_nat ((b + r + off) mod 100000000))
     \<noteq> zfill 8 (str_nat ((b + Suc r + off) mod 100000000))"
proof
  assume "zfill 8 (str_nat ((b + r + off) mod 100000000))
            = zfill 8 (str_nat ((b + Suc r + off) mod 100000000))"
  then have "digits_value (zfill 8 (str_nat ((b + r + off) mod 100000000)))
               = digits_value (zfill 8 (str_nat ((b + Suc r + off) mod 100000000)))"
    by simp
  then have "(b + r + off) mod 100000000 = (b + Suc r + off) mod 100000000"
    by (simp only: digits_value_zfill)
  then have "(b + r + off) mod 100000000 = Suc (b + r + off) mod 100000000"
    by simp
  then show False
    by (simp add: mod_Suc split: if_splits)
qed

lemma session_id_at_Suc: "session_id_at b rc off \<noteq> session_id_at b (Suc rc) off"
  unfolding session_id_at_def by (rule session_id_differs)

lemma record_request_counts:
  assumes "enabled r"
  shows "request_count (record_request md5 now r)
           = (if max_requests_per_ip r \<le> int (Suc (request_count r)) then 0
              else Suc (request_count r))"
    and "rotation_count (record_request md5 now r)
           = (if max_requests_per_ip r \<le> int (Suc (request_count r))
              then Suc (rotation_count r) else rotation_count r)"
    and "enabled (record_request md5 now r)"
    and "max_requests_per_ip (record_request md5 now r) = max_requests_per_ip r"
    and "repo_full_name (record_request md5 now r) = repo_full_name r"
  using assms
  by (auto simp: record_request_def get_proxies_def increment_request_count_def
        generate_new_session_id_def Let_def split: option.splits)

lemma record_request_session:
  assumes "enabled r"
    and "current_session_id r = None
         \<or> (random_offset r = Some off
             \<and> current_session_id r
                 = Some (session_id_at (md5 (repo_full_name r)) (rotation_count r) off))"
    and "random_offset r = None \<longrightarrow> off = now mod 1000000"
    and "random_offset r \<noteq> None \<longrightarrow> random_offset r = Some off"
  shows "random_offset (record_request md5 now r) = Some off
         \<and> current_session_id (record_request md5 now r)
             = Some (session_id_at (md5 (repo_full_name r))
                       (rotation_count (record_request md5 now r)) off)"
  using assms
  by (auto simp: record_request_def get_proxies_def increment_request_count_def
        generate_new_session_id_def session_id_at_def Let_def split: option.splits)

lemma requests_frame:
  assumes "enabled rot"
  shows "enabled (requests md5 clock rot k)
         \<and> max_requests_per_ip (requests md5 clock rot k) = max_requests_per_ip rot
         \<and> repo_full_name (requests md5 clock rot k) = repo_full_name rot"
  using assms by (induction k) (simp_all add: record_request_counts)

lemma requests_bounded:
  assumes "enabled rot" and "int (request_count rot) \<le> max_requests_per_ip rot"
  shows "int (request_count (requests md5 clock rot k)) \<le> max_requests_per_ip rot"
proof (induction k)
  case 0
  show ?case using assms(2) by simp
next
  case (Suc k)
  have f: "enabled (requests md5 clock rot k)"
    "max_requests_per_ip (requests md5 clock rot k) = max_requests_per_ip rot"
    using requests_frame [OF assms(1)] by auto
  show ?case
    using Suc assms(2) by (simp add: record_request_counts(1) [OF f(1)] f(2))
qed

lemma requests_below:
  assumes "enabled rot" and "int (request_count rot) < max_requests_per_ip rot"
  shows "int (request_count (requests md5 clock rot k)) < max_requests_per_ip rot"
proof (induction k)
  case 0
  show ?case using assms(2) by simp
next
  case (Suc k)
  have f: "enabled (requests md5 clock rot k)"
    "max_requests_per_ip (requests md5 clock rot k) = max_requests_per_ip rot"
    using requests_frame [OF assms(1)] by auto
  show ?case
    using Suc assms(2) by (simp add: record_request_counts(1) [OF f(1)] f(2))
qed

lemma requests_session:
  assumes "enabled rot" and "current_session_id rot = None"
    and "off = (case random_offset rot of None \<Rightarrow> clock 0 mod 1000000 | Some v \<Rightarrow> v)"
  shows "random_offset (requests md5 clock rot (Suc k)) = Some off
         \<and> current_session_id (requests md5 clock rot (Suc k))
             = Some (session_id_at (md5 (repo_full_name rot))
                       (rotation_count (requests md5 clock rot (Suc k))) off)"
proof (induction k)
  case 0
  have "random_offset (record_request md5 (clock 0) rot) = Some off
        \<and> current_session_id (record_request md5 (clock 0) rot)
            = Some (session_id_at (md5 (repo_full_name rot))
                      (rotation_count (record_request md5 (clock 0) rot)) off)"
    using assms by (intro record_request_session) (auto split: option.splits)
  then show ?case by simp
next
  case (Suc k)
  let ?s = "requests md5 clock rot (Suc k)"
  have f: "enabled ?s" "repo_full_name ?s = repo_full_name rot"
    using requests_frame [OF assms(1), of md5 clock "Suc k"] by auto
  have "random_offset (record_request md5 (clock (Suc k)) ?s) = Some off
        \<and> current_session_id (record_request md5 (clock (Suc k)) ?s)
            = Some (session_id_at (md5 (repo_full_name ?s))
                      (rotation_count (record_request md5 (clock (Suc k)) ?s)) off)"
    using f Suc by (intro record_request_session) auto
  then show ?case using f(2) by simp
qed

lemma requests_before_threshold:
  assumes "enabled rot" and "request_count rot = 0"
    and "int k < max_requests_per_ip rot"
  shows "request_count (requests md5 clock rot k) = k
         \<and> rotation_count (requests md5 clock rot k) = rotation_count rot"
  using assms(3)
proof (induction k)
  case 0
  show ?case using assms(2) by simp
next
  case (Suc k)
  have f: "enabled (requests md5 clock rot k)"
    "max_requests_per_ip (requests md5 clock rot k) = max_requests_per_ip rot"
    using requests_frame [OF assms(1)] by auto
  have "request_count (requests md5 clock rot k) = k
        \<and> rotation_count (requests md5 clock rot k) = rotation_count rot"
    using Suc by simp
  then show ?case
    using Suc.prems by (simp add: record_request_counts(1,2) [OF f(1)] f(2))
qed

lemma requests_at_threshold:
  assumes "enabled rot" and "request_count rot = 0"
    and "max_requests_per_ip rot = int (Suc k)"
  shows "rotation_count (requests md5 clock rot (Suc k)) = Suc (rotation_count rot)"
proof -
  have f: "enabled (requests md5 clock rot k)"
    "max_requests_per_ip (requests md5 clock rot k) = max_requests_per_ip rot"
    using requests_frame [OF assms(1)] by auto
  have "request_count (requests md5 clock rot k) = k
        \<and> rotation_count (requests md5 clock rot k) = rotation_count rot"
    using assms by (intro requests_before_threshold) auto
  then show ?thesis
    using assms(3) by (simp add: record_request_counts(2) [OF f(1)] f(2))
qed

lemma requests_low_threshold:
  assumes "enabled rot" and "max_requests_per_ip rot \<le> 1"
  shows "rotation_count (requests md5 clock rot k) = rotation_count rot + k"
proof (induction k)
  case 0
  show ?case by simp
next
  case (Suc k)
  have f: "enabled (requests md5 clock rot k)"
    "max_requests_per_ip (requests md5 clock rot k) = max_requests_per_ip rot"
    using requests_frame [OF assms(1)] by auto
  show ?case
    using Suc assms(2) by (simp add: record_request_counts(2) [OF f(1)] f(2))
qed

text \<open>
  Claim C8 (rotation monotonicity). Take an enabled rotator that has just rotated or
  has just been constructed (request counter 0, no session id yet) with a
  non-negative threshold, and record \<open>N\<close> requests, each one
  \<^verbatim>\<open>increment_request_count()\<close> followed by \<^verbatim>\<open>get_proxies()\<close>, where \<open>N\<close> exceeds the
  threshold. Then the session id changes during the sequence: there are two moments
  \<open>j < k \<le> N\<close> with different session ids, the later one generated at a higher
  rotation index; both are moments after a request, unless \<open>N = 1\<close>, where the only
  request already rotates away from the initial state. And after every request the
  counter is at most the threshold; for a threshold of at least one it is also at
  most the threshold between the increment and the consultation.
\<close>

theorem rotation_monotonicity:
  assumes "enabled rot"
    and "request_count rot = 0"
    and "current_session_id rot = None"
    and "0 \<le> max_requests_per_ip rot"
    and "max_requests_per_ip rot < int N"
  shows "(\<exists>j k. j < k \<and> k \<le> N \<and> (0 < j \<or> N = 1)
            \<and> rotation_count (requests md5 clock rot j)
                < rotation_count (requests md5 clock rot k)
            \<and> current_session_id (requests md5 clock rot j)
                \<noteq> current_session_id (requests md5 clock rot k)
            \<and> current_session_id (requests md5 clock rot k) \<noteq> None)
         \<and> (\<forall>k. int (request_count (requests md5 clock rot k)) \<le> max_requests_per_ip rot)
         \<and> (\<forall>k. 1 \<le> max_requests_per_ip rot \<longrightarrow>
                int (request_count (increment_request_count (requests md5 clock rot k)))
                  \<le> max_requests_per_ip rot)"
proof (intro conjI)
  define off where
    "off = (case random_offset rot of None \<Rightarrow> clock 0 mod 1000000 | Some v \<Rightarrow> v)"
  define b where "b = md5 (repo_full_name rot)"
  have sess: "current_session_id (requests md5 clock rot (Suc k))
                = Some (session_id_at b (rotation_count (requests md5 clock rot (Suc k))) off)"
    for k
    using requests_session [of rot off clock md5 k] assms(1,3) off_def by (simp add: b_def)
  show "\<exists>j k. j < k \<and> k \<le> N \<and> (0 < j \<or> N = 1)
            \<and> rotation_count (requests md5 clock rot j)
                < rotation_count (requests md5 clock rot k)
            \<and> current_session_id (requests md5 clock rot j)
                \<noteq> current_session_id (requests md5 clock rot k)
            \<and> current_session_id (requests md5 clock rot k) \<noteq> None"
  proof (cases "max_requests_per_ip rot \<le> 1")
    case True
    note low = requests_low_threshold [OF assms(1) True, of md5 clock]
    show ?thesis
    proof (cases "N = 1")
      case True
      have "rotation_count (requests md5 clock rot 0)
              < rotation_count (requests md5 clock rot (Suc 0))"
        using low [of "Suc 0"] by simp
      moreover have "current_session_id (requests md5 clock rot 0)
              \<noteq> current_session_id (requests md5 clock rot (Suc 0))"
        using sess [of 0] assms(3) by simp
      moreover have "current_session_id (requests md5 clock rot (Suc 0)) \<noteq> None"
        using sess [of 0] by simp
      ultimately show ?thesis
        using True by (intro exI [of _ 0] exI [of _ "Suc 0"]) simp
    next
      case False
      then have N: "Suc (Suc 0) \<le> N" using assms(4,5) by simp
      have r1: "rotation_count (requests md5 clock rot (Suc 0)) = Suc (rotation_count rot)"
        using low [of "Suc 0"] by simp
      have r2: "rotation_count (requests md5 clock rot (Suc (Suc 0)))
                  = Suc (Suc (rotation_count rot))"
        using low [of "Suc (Suc 0)"] by simp
      have "current_session_id (requests md5 clock rot (Suc 0))
              \<noteq> current_session_id (requests md5 clock rot (Suc (Suc 0)))"
        using sess [of 0] sess [of "Suc 0"] r1 r2 session_id_at_Suc [of b "Suc (rotation_count rot)" off]
        by simp
      moreover have "current_session_id (requests md5 clock rot (Suc (Suc 0))) \<noteq> None"
        using sess [of "Suc 0"] by simp
      ultimately show ?thesis
        using N r1 r2 by (intro exI [of _ "Suc 0"] exI [of _ "Suc (Suc 0)"]) simp
    qed
  next
    case False
    define m where "m = nat (max_requests_per_ip rot) - 2"
    have m: "max_requests_per_ip rot = int (Suc (Suc m))"
      using False unfolding m_def by linarith
    have r1: "rotation_count (requests md5 clock rot (Suc 0)) = rotation_count rot"
      using requests_before_threshold [OF assms(1,2), of "Suc 0" md5 clock] m by simp
    have r2: "rotation_count (requests md5 clock rot (Suc (Suc m))) = Suc (rotation_count rot)"
      using requests_at_threshold [OF assms(1,2) m] .
    have N: "Suc (Suc m) \<le> N" using assms(5) m by simp
    have "current_session_id (requests md5 clock rot (Suc 0))
            \<noteq> current_session_id (requests md5 clock rot (Suc (Suc m)))"
      using sess [of 0] sess [of "Suc m"] r1 r2 session_id_at_Suc [of b "rotation_count rot" off]
      by simp
    moreover have "current_session_id (requests md5 clock rot (Suc (Suc m))) \<noteq> None"
      using sess [of "Suc m"] by simp
    ultimately show ?thesis
      using N r1 r2 by (intro exI [of _ "Suc 0"] exI [of _ "Suc (Suc m)"]) simp
  qed
next
  show "\<forall>k. int (request_count (requests md5 clock rot k)) \<le> max_requests_per_ip rot"
    using requests_bounded [OF assms(1), of md5 clock] assms(2,4) by simp
next
  show "\<forall>k. 1 \<le> max_requests_per_ip rot \<longrightarrow>
          int (request_count (increment_request_count (requests md5 clock rot k)))
            \<le> max_requests_per_ip rot"
  proof (intro allI impI)
    fix k
    assume "1 \<le> max_requests_per_ip rot"
    then have "int (request_count (requests md5 clock rot k)) < max_requests_per_ip rot"
      using requests_below [OF assms(1), of md5 clock k] assms(2) by simp
    then show "int (request_count (increment_request_count (requests md5 clock rot k)))
                 \<le> max_requests_per_ip rot"
      by (simp add: increment_request_count_def)
  qed
qed

theorem rotation_monotonicity_witness:
  "enabled sample_rotator \<and> request_count sample_rotator = 0
   \<and> current_session_id sample_rotator = None
   \<and> 0 \<le> max_requests_per_ip sample_rotator
   \<and> max_requests_per_ip sample_rotator < int 4
   \<and> (\<exists>j k. j < k \<and> k \<le> 4 \<and> (0 < j \<or> (4::nat) = 1)
         \<and> rotation_count (requests (\<lambda>s. 99999990) (\<lambda>n. 7) sample_rotator j)
             < rotation_count (requests (\<lambda>s. 99999990) (\<lambda>n. 7) sample_rotator k)
         \<and> current_session_id (requests (\<lambda>s. 99999990) (\<lambda>n. 7) sample_rotator j)
             \<noteq> current_session_id (requests (\<lambda>s. 99999990) (\<lambda>n. 7) sample_rotator k)
         \<and> current_session_id (requests (\<lambda>s. 99999990) (\<lambda>n. 7) sample_rotator k) \<noteq> None)
   \<and> (\<forall>k. int (request_count (requests (\<lambda>s. 99999990) (\<lambda>n. 7) sample_rotator k))
          \<le> max_requests_per_ip sample_rotator)
   \<and> 1 \<le> max_requests_per_ip sample_rotator
   \<and> (\<forall>k. int (request_count (increment_request_count
                 (requests (\<lambda>s. 99999990) (\<lambda>n. 7) sample_rotator k)))
            \<le> max_requests_per_ip sample_rotator)"
proof -
  have h: "enabled sample_rotator" "request_count sample_rotator = 0"
    "current_session_id sample_rotator = None"
    "0 \<le> max_requests_per_ip sample_rotator"
    "max_requests_per_ip sample_rotator < int 4"
    by (simp_all add: sample_rotator_def)
  have t: "1 \<le> max_requests_per_ip sample_rotator"
    by (simp add: sample_rotator_def)
  show ?thesis
    using rotation_monotonicity [OF h, of "\<lambda>s. 99999990" "\<lambda>n. 7"] h t by simp
qed

subsection \<open>ResilientFetcher: status 404, retry ceiling and escaping exceptions\<close>

lemma py_int_samples:
  "py_int ''60'' = Some 60" "py_int '' -1_0 '' = Some (- 10)" "py_int ''abc'' = None"
  "py_int '''' = None" "py_int ''Wed, 21 Oct 2015 07:28:00 GMT'' = None"
  by code_simp+

lemma record_request_enabled: "enabled (record_request md5 now rot) = enabled rot"
  by (simp add: record_request_def get_proxies_def increment_request_count_def
        generate_new_session_id_def Let_def split: option.splits prod.splits)

lemma fetch_attempt_404:
  "status r = 404 \<Longrightarrow> fetch_attempt (Response r) rot = (Return [], rot)"
  by (simp add: fetch_attempt_def)

lemma github_api_attempt_404:
  "status r = 404 \<Longrightarrow> github_api_attempt md5 now (Response r) rot = (Retry, rot)"
  by (simp add: github_api_attempt_def)

lemma fetch_404_first:
  assumes "env 0 = Response r" and "status r = 404"
  shows "fst (fetch_with_retries md5 clock env rot) = Inr []
         \<and> fst (snd (fetch_with_retries md5 clock env rot)) = 1"
  unfolding fetch_with_retries_def
  by (subst fetch_with_retries_from.simps, simp add: assms fetch_attempt_404 Let_def)+

lemma github_api_from_404:
  assumes "\<forall>i. env i = Response r" and "status r = 404"
  shows "retries \<le> max_retries \<Longrightarrow>
         fst (github_api_from md5 clock env max_retries retries rot) = Inr None
         \<and> fst (snd (github_api_from md5 clock env max_retries retries rot)) = max_retries"
proof (induction "max_retries - retries" arbitrary: retries rot)
  case 0
  then show ?case by (subst github_api_from.simps, simp)+
next
  case (Suc d)
  then have lt: "retries < max_retries" and d: "d = max_retries - Suc retries"
    and le: "Suc retries \<le> max_retries" by auto
  show ?case
    apply (subst github_api_from.simps)
    apply (subst (2) github_api_from.simps)
    using Suc.hyps(1) [OF d le] lt assms
    apply (simp add: github_api_attempt_404 Let_def)
    done
qed

lemma fetch_attempts_bounded:
  "retries \<le> max_retries \<Longrightarrow>
   fst (snd (fetch_with_retries_from md5 clock env max_retries retries rot)) \<le> max_retries"
proof (induction md5 clock env max_retries retries rot rule: fetch_with_retries_from.induct)
  case (1 md5 clock env max_retries retries rot)
  show ?case
  proof (cases "retries < max_retries")
    case False
    then show ?thesis using "1.prems" by (subst fetch_with_retries_from.simps) simp
  next
    case True
    let ?rot = "if enabled rot then record_request md5 (clock retries) rot else rot"
    obtain act rot' where a: "fetch_attempt (env retries) ?rot = (act, rot')"
      by (cases "fetch_attempt (env retries) ?rot")
    show ?thesis
    proof (cases act)
      case Retry
      have "fst (snd (fetch_with_retries_from md5 clock env max_retries (Suc retries) rot'))
              \<le> max_retries"
        using "1.IH" [OF True refl a [symmetric] Retry] True by simp
      then show ?thesis
        using True a Retry by (subst fetch_with_retries_from.simps) (simp add: Let_def)
    next
      case (Return x)
      then show ?thesis
        using True a by (subst fetch_with_retries_from.simps) (simp add: Let_def)
    next
      case (Raise e)
      then show ?thesis
        using True a by (subst fetch_with_retries_from.simps) (simp add: Let_def)
    qed
  qed
qed

lemma github_api_attempts_bounded:
  "retries \<le> max_retries \<Longrightarrow>
   fst (snd (github_api_from md5 clock env max_retries retries rot)) \<le> max_retries"
proof (induction md5 clock env max_retries retries rot rule: github_api_from.induct)
  case (1 md5 clock env max_retries retries rot)
  show ?case
  proof (cases "retries < max_retries")
    case False
    then show ?thesis using "1.prems" by (subst github_api_from.simps) simp
  next
    case True
    let ?rot = "if enabled rot then record_request md5 (clock retries) rot else rot"
    obtain act rot' where a: "github_api_attempt md5 (clock retries) (env retries) ?rot = (act, rot')"
      by (cases "github_api_attempt md5 (clock retries) (env retries) ?rot")
    show ?thesis
    proof (cases act)
      case Retry
      have "fst (snd (github_api_from md5 clock env max_retries (Suc retries) rot'))
              \<le> max_retries"
        using "1.IH" [OF True refl a [symmetric] Retry] True by simp
      then show ?thesis
        using True a Retry by (subst github_api_from.simps) (simp add: Let_def)
    next
      case (Return x)
      then show ?thesis
        using True a by (subst github_api_from.simps) (simp add: Let_def)
    next
      case (Raise e)
      then show ?thesis
        using True a by (subst github_api_from.simps) (simp add: Let_def)
    qed
  qed
qed

lemma dated_retry_async:
  "fetch_attempt (Response dated_retry_response) rot = (Raise ValueError, rot)"
  by (simp add: fetch_attempt_def dated_retry_response_def py_int_samples)

lemma dated_retry_sync:
  "github_api_attempt md5 now (Response dated_retry_response) rot = (Raise ValueError, rot)"
  by (simp add: github_api_attempt_def github_api_except_def dated_retry_response_def
        py_int_samples)

text \<open>
  Claim C4 (NotFound short-circuit). On a response with status 404
  \<^verbatim>\<open>fetch_with_retries\<close> returns the empty text after one request, as the claim
  says. \<^verbatim>\<open>github_api\<close> does not: \<^verbatim>\<open>requests.get\<close> raises nothing on such a response,
  so the clause for \<^verbatim>\<open>HTTP404NotFoundError\<close> is never entered and status 404 falls to
  the final \<^verbatim>\<open>else\<close> branch, which retries. Against an endpoint that answers 404
  every time it sends five requests before it returns \<^verbatim>\<open>None\<close>, and when the second
  answer has status 200 it returns that response. This holds for every rotator,
  enabled or not.
\<close>

theorem not_found_sync_retries:
  "fst (fetch_with_retries md5 clock (\<lambda>i. Response not_found_response) rot) = Inr []
   \<and> fst (snd (fetch_with_retries md5 clock (\<lambda>i. Response not_found_response) rot)) = 1
   \<and> fst (github_api md5 clock (\<lambda>i. Response not_found_response) rot) = Inr None
   \<and> fst (snd (github_api md5 clock (\<lambda>i. Response not_found_response) rot)) = 5
   \<and> fst (github_api md5 clock
            (\<lambda>i. Response (if i = 0 then not_found_response else ok_response)) rot)
       = Inr (Some ok_response)
   \<and> fst (snd (github_api md5 clock
            (\<lambda>i. Response (if i = 0 then not_found_response else ok_response)) rot)) = 2"
proof -
  have s: "status not_found_response = 404" by (simp add: not_found_response_def)
  have a: "fst (fetch_with_retries md5 clock (\<lambda>i. Response not_found_response) rot) = Inr []
   \<and> fst (snd (fetch_with_retries md5 clock (\<lambda>i. Response not_found_response) rot)) = 1"
    using s by (intro fetch_404_first [of _ not_found_response]) simp_all
  have b: "fst (github_api md5 clock (\<lambda>i. Response not_found_response) rot) = Inr None
   \<and> fst (snd (github_api md5 clock (\<lambda>i. Response not_found_response) rot)) = 5"
    unfolding github_api_def
    using s by (intro github_api_from_404 [of _ not_found_response]) simp_all
  have o: "github_api_attempt md5 now (Response ok_response) r = (Return (Some ok_response), r)"
    for now r
    by (simp add: github_api_attempt_def ok_response_def)
  have c: "fst (github_api md5 clock
            (\<lambda>i. Response (if i = 0 then not_found_response else ok_response)) rot)
       = Inr (Some ok_response)
   \<and> fst (snd (github_api md5 clock
            (\<lambda>i. Response (if i = 0 then not_found_response else ok_response)) rot)) = 2"
  proof -
    let ?env = "\<lambda>i. Response (if i = (0::nat) then not_found_response else ok_response)"
    have second: "fst (github_api_from md5 clock ?env 5 (Suc 0) r) = Inr (Some ok_response)
        \<and> fst (snd (github_api_from md5 clock ?env 5 (Suc 0) r)) = 2" for r
      by (subst github_api_from.simps, simp add: o Let_def)+
    show ?thesis
      unfolding github_api_def
      by (subst github_api_from.simps, simp add: github_api_attempt_404 [OF s] second Let_def)+
  qed
  show ?thesis using a b c by simp
qed

text \<open>
  Claim C5 (fetch totality). Both fetchers send at most five requests whatever the
  attempts deliver, but an exception can leave them: \<^verbatim>\<open>Retry-After\<close> may carry a date
  instead of a number of seconds, \<^verbatim>\<open>int\<close> raises \<^verbatim>\<open>ValueError\<close> on it, and neither
  fetcher has a clause for that exception. On a 429 response with such a header both
  calls end in \<^verbatim>\<open>ValueError\<close> at the first attempt, for every rotator.
\<close>

theorem malformed_header_escapes:
  "fst (fetch_with_retries md5 clock (\<lambda>i. Response dated_retry_response) rot) = Inl ValueError
   \<and> fst (github_api md5 clock (\<lambda>i. Response dated_retry_response) rot) = Inl ValueError
   \<and> (\<forall>env. fst (snd (fetch_with_retries md5 clock env rot)) \<le> 5)
   \<and> (\<forall>env. fst (snd (github_api md5 clock env rot)) \<le> 5)"
proof (intro conjI allI)
  show "fst (fetch_with_retries md5 clock (\<lambda>i. Response dated_retry_response) rot)
          = Inl ValueError"
    unfolding fetch_with_retries_def
    by (subst fetch_with_retries_from.simps) (simp add: dated_retry_async Let_def)
  show "fst (github_api md5 clock (\<lambda>i. Response dated_retry_response) rot) = Inl ValueError"
    unfolding github_api_def
    by (subst github_api_from.simps) (simp add: dated_retry_sync Let_def)
  show "fst (snd (fetch_with_retries md5 clock env rot)) \<le> 5" for env
    unfolding fetch_with_retries_def by (rule fetch_attempts_bounded) simp
  show "fst (snd (github_api md5 clock env rot)) \<le> 5" for env
    unfolding github_api_def by (rule github_api_attempts_bounded) simp
qed

subsection \<open>HarvestPipeline: gating, ledgers and resume\<close>

lemma split_on_single: "split_on P s = [b] \<Longrightarrow> s = b"
proof (induction s arbitrary: b)
  case Nil
  then show ?case by simp
next
  case (Cons c cs)
  show ?case
  proof (cases "P c")
    case True
    with Cons.prems show ?thesis using split_on_not_Nil [of P cs] by simp
  next
    case False
    with Cons.prems have "c # hd (split_on P cs) = b" and "tl (split_on P cs) = []"
      by (simp_all add: Let_def)
    moreover from this have "split_on P cs = [hd (split_on P cs)]"
      using split_on_not_Nil [of P cs] by (cases "split_on P cs") simp_all
    ultimately show ?thesis using Cons.IH by auto
  qed
qed

lemma split_on_pair:
  "split_on (\<lambda>c. c = x) s = [a, b] \<Longrightarrow> s = a @ x # b"
proof (induction s arbitrary: a)
  case Nil
  then show ?case by simp
next
  case (Cons c cs)
  show ?case
  proof (cases "c = x")
    case True
    with Cons.prems have "a = []" and "split_on (\<lambda>c. c = x) cs = [b]" by simp_all
    then show ?thesis using True split_on_single [of "\<lambda>c. c = x" cs b] by simp
  next
    case False
    let ?r = "split_on (\<lambda>c. c = x) cs"
    from False Cons.prems have a: "a = c # hd ?r" and t: "tl ?r = [b]"
      by (simp_all add: Let_def)
    have "?r = [hd ?r, b]"
      using t split_on_not_Nil [of "\<lambda>c. c = x" cs] by (cases ?r) simp_all
    then have "cs = hd ?r @ x # b" by (rule Cons.IH)
    then show ?thesis using a by simp
  qed
qed

lemma task_of_name:
  "task_of p = Some (owner, repo_name, q) \<Longrightarrow> owner @ ''/'' @ repo_name = full_name p \<and> q = p"
  by (auto simp: task_of_def split_slash_def split: list.splits dest!: split_on_pair)

lemma create_instance_files:
  "create_instance lexer language owner repo_name p f st = (r, st') \<Longrightarrow>
   all_output st' = all_output st \<and> output_file st' = output_file st"
  by (auto simp: create_instance_def Let_def split: sum.splits prod.splits option.splits if_splits)







lemma sample_create:
  "create_instance (\<lambda>s. ''Unknown'') (Some ''python'') ''o'' ''r'' sample_pull
       (Inr src_diff, Inr (sample_statement, [])) empty_store
     = (Inr sample_instance,
        empty_store\<lparr>diff_requests := [''o__r-5''], successful_requests := [''o__r-5'']\<rparr>)"
  by code_simp

lemma late_create:
  "create_instance (\<lambda>s. ''Unknown'') (Some ''python'') ''o'' ''r'' late_pull
       (Inr src_diff, Inr (sample_statement, [])) empty_store
     = (Inr late_instance,
        empty_store\<lparr>diff_requests := [''o__r-5''], successful_requests := [''o__r-5'']\<rparr>)"
  by code_simp

text \<open>
  Claim C6 (validity gating of outputs), as amended. For a candidate that is not
  skipped and for which \<^verbatim>\<open>create_instance\<close> returns an instance: if its code patch or
  its problem statement is empty, the run writes it to neither file; if both are
  non-empty, its test patch is blank after trimming, and its creation timestamp parses
  to an instant before the cutoff, the run appends it to the superset file and leaves
  the filtered file as it is.
\<close>

theorem validity_gating:
  assumes "make_instance_id (full_name p) (number p) \<notin> seen_prs"
    and "make_instance_id (full_name p) (number p) \<notin> successful_instances"
    and "is_valid_pull p"
    and "create_instance lexer language owner repo_name p f st = (Inr i, st')"
  shows "(inst_patch i = [] \<or> problem_statement i = [] \<longrightarrow>
            all_output (process_single_pr lexer language strptime cutoff_date seen_prs
                          successful_instances owner repo_name p f st) = all_output st
            \<and> output_file (process_single_pr lexer language strptime cutoff_date seen_prs
                             successful_instances owner repo_name p f st) = output_file st)
       \<and> (inst_patch i \<noteq> [] \<and> problem_statement i \<noteq> [] \<and> strip (inst_test_patch i) = []
            \<and> (\<exists>t. strptime (inst_created_at i) = Some t \<and> t < cutoff_date) \<longrightarrow>
            all_output (process_single_pr lexer language strptime cutoff_date seen_prs
                          successful_instances owner repo_name p f st) = all_output st @ [i]
            \<and> output_file (process_single_pr lexer language strptime cutoff_date seen_prs
                             successful_instances owner repo_name p f st) = output_file st)"
  using assms create_instance_files [OF assms(4)]
  by (auto simp: process_single_pr_def Let_def is_valid_instance_def has_test_patch_def
        split: option.splits)

text \<open>
  The amended claim at the candidate of the specification's scenario, when the diff
  touches \<^verbatim>\<open>src/x.py\<close> only: the record goes to the superset file alone.
\<close>

theorem validity_gating_witness:
  "all_output (process_single_pr (\<lambda>s. ''Unknown'') (Some ''python'') sample_strptime
       1735689600 {} {} ''o'' ''r'' sample_pull (Inr src_diff, Inr (sample_statement, []))
       empty_store) = [sample_instance]
   \<and> output_file (process_single_pr (\<lambda>s. ''Unknown'') (Some ''python'') sample_strptime
       1735689600 {} {} ''o'' ''r'' sample_pull (Inr src_diff, Inr (sample_statement, []))
       empty_store) = []"
proof -
  have 1: "is_valid_pull sample_pull" by code_simp
  have 2: "inst_patch sample_instance \<noteq> [] \<and> problem_statement sample_instance \<noteq> []
           \<and> strip (inst_test_patch sample_instance) = []
           \<and> (\<exists>t. sample_strptime (inst_created_at sample_instance) = Some t
                    \<and> t < 1735689600)"
    by (simp add: sample_instance_def sample_strptime_def src_patch_def render_patch_def
          sample_statement_def strip_def)
  have 3: "all_output empty_store = [] \<and> output_file empty_store = []"
    by (simp add: empty_store_def)
  show ?thesis
    using validity_gating [OF _ _ 1 sample_create, of "{}" "{}" sample_strptime 1735689600] 2 3
    by simp
qed

text \<open>
  Claim C6 as stated fails: the same candidate created on 1 June 2025, after the
  cutoff of 1 January 2025, yields an instance with a non-empty code patch, a non-empty
  problem statement and a blank test patch, and the run writes it to no file.
\<close>

theorem cutoff_blocks_superset_counterexample:
  "fst (create_instance (\<lambda>s. ''Unknown'') (Some ''python'') ''o'' ''r'' late_pull
          (Inr src_diff, Inr (sample_statement, [])) empty_store) = Inr late_instance
   \<and> inst_patch late_instance \<noteq> [] \<and> problem_statement late_instance \<noteq> []
   \<and> strip (inst_test_patch late_instance) = []
   \<and> all_output (process_single_pr (\<lambda>s. ''Unknown'') (Some ''python'') sample_strptime
       1735689600 {} {} ''o'' ''r'' late_pull (Inr src_diff, Inr (sample_statement, []))
       empty_store) = []"
  by code_simp

lemma extract_patches_flag:
  "(snd (snd (extract_patches lexer language name patch_text)) = False) = (patch_text = [])"
  "(snd (snd (extract_patches_sync lexer language name patch_text)) = False) = (patch_text = [])"
  by (auto simp: extract_patches_def extract_patches_sync_def classify_text_def Let_def
        split: prod.splits)

lemma process_empty_diff:
  assumes "make_instance_id (full_name p) (number p) \<notin> seen_prs"
    and "make_instance_id (full_name p) (number p) \<notin> successful_instances"
    and "is_valid_pull p" and "owner @ ''/'' @ repo_name = full_name p"
  shows "process_single_pr lexer language strptime cutoff_date seen_prs successful_instances
           owner repo_name p (Inr [], s) st
         = st\<lparr>diff_requests := diff_requests st @ [make_instance_id (full_name p) (number p)]\<rparr>"
proof -
  have e: "extract_patches lexer language repo_name [] = ([], [], False)"
    by (simp add: extract_patches_def classify_text_def)
  show ?thesis
    using assms
    by (cases s)
      (auto simp: process_single_pr_def create_instance_def e Let_def is_valid_pull_def
         is_valid_instance_def split: option.splits sum.splits prod.splits)
qed

lemma main_empty_diff:
  assumes "strptime cutoff_text = Some cutoff_date"
    and "token \<noteq> None \<or> env_token \<noteq> None"
    and "\<not> list_ex (\<lambda>i. strptime (inst_created_at i) = None) (all_output st)"
    and "task_of p \<noteq> None" and "is_valid_pull p"
    and "make_instance_id (full_name p) (number p) \<notin> set (map instance_id (all_output st))"
    and "make_instance_id (full_name p) (number p) \<notin> set (map strip (successful_requests st))"
  shows "main lexer language strptime cutoff_text token env_token [p] (\<lambda>k. (Inr [], s)) st
         = (None,
            st\<lparr>diff_requests :=
                 diff_requests st @ [make_instance_id (full_name p) (number p)]\<rparr>)"
proof -
  obtain owner repo_name where t: "task_of p = Some (owner, repo_name, p)"
    using assms(4) task_of_name by (cases "task_of p") auto
  have nm: "owner @ ''/'' @ repo_name = full_name p" using task_of_name [OF t] by simp
  have g: "group_by_repo [p] = [p]" by (simp add: group_by_repo_def)
  have "main lexer language strptime cutoff_text token env_token [p] (\<lambda>k. (Inr [], s)) st
        = (None, process_single_pr lexer language strptime cutoff_date
             (set (map instance_id (all_output st))) (set (map strip (successful_requests st)))
             owner repo_name p (Inr [], s) st)"
    using assms(1,2,3) t by (auto simp: main_def g run_tasks_def Let_def)
  then show ?thesis
    using process_empty_diff [OF assms(6,7,5) nm] by simp
qed

text \<open>
  Claim C10 (empty diff conflated with fetch failure). The success flag of
  \<^verbatim>\<open>extract_patches\<close> is \<^verbatim>\<open>False\<close> exactly for the empty diff text, in both files,
  and \<^verbatim>\<open>fetch_with_retries\<close> turns a 404 answer into the empty text. A valid candidate
  whose id is in neither ledger and whose diff comes back empty leaves every file of
  the run as it was, whatever the issue lookup delivers: no record is written and the
  id does not enter \<^verbatim>\<open>successful_requests.txt\<close>. So each of \<open>n\<close> successive runs over
  that candidate asks for its diff again.
\<close>

theorem empty_diff_reported_as_failure:
  assumes "strptime cutoff_text = Some cutoff_date"
    and "token \<noteq> None \<or> env_token \<noteq> None"
    and "\<not> list_ex (\<lambda>i. strptime (inst_created_at i) = None) (all_output st)"
    and "task_of p \<noteq> None" and "is_valid_pull p"
    and "make_instance_id (full_name p) (number p) \<notin> set (map instance_id (all_output st))"
    and "make_instance_id (full_name p) (number p) \<notin> set (map strip (successful_requests st))"
  shows "((snd (snd (extract_patches lexer language name patch_text)) = False)
            = (patch_text = []))
       \<and> ((snd (snd (extract_patches_sync lexer language name patch_text)) = False)
            = (patch_text = []))
       \<and> fst (fetch_with_retries md5 clock (\<lambda>k. Response not_found_response) rot) = Inr []
       \<and> ((\<lambda>st. snd (main lexer language strptime cutoff_text token env_token [p]
                        (\<lambda>k. (Inr [], s)) st)) ^^ n) st
           = st\<lparr>diff_requests :=
                  diff_requests st
                    @ replicate n (make_instance_id (full_name p) (number p))\<rparr>"
proof (intro conjI)
  show "(snd (snd (extract_patches lexer language name patch_text)) = False)
          = (patch_text = [])"
    by (rule extract_patches_flag)
  show "(snd (snd (extract_patches_sync lexer language name patch_text)) = False)
          = (patch_text = [])"
    by (rule extract_patches_flag)
  show "fst (fetch_with_retries md5 clock (\<lambda>k. Response not_found_response) rot) = Inr []"
    using fetch_404_first [of "\<lambda>k. Response not_found_response" not_found_response]
    by (simp add: not_found_response_def)
  let ?run = "\<lambda>st. snd (main lexer language strptime cutoff_text token env_token [p]
                          (\<lambda>k. (Inr [], s)) st)"
  let ?iid = "make_instance_id (full_name p) (number p)"
  show "(?run ^^ n) st = st\<lparr>diff_requests := diff_requests st @ replicate n ?iid\<rparr>"
  proof (induction n)
    case 0
    show ?case by simp
  next
    case (Suc n)
    let ?st = "st\<lparr>diff_requests := diff_requests st @ replicate n ?iid\<rparr>"
    have "?run ?st = ?st\<lparr>diff_requests := diff_requests ?st @ [?iid]\<rparr>"
      using main_empty_diff [of strptime cutoff_text cutoff_date token env_token ?st p
          lexer language s] assms
      by simp
    then show ?case
      using Suc by (simp add: replicate_append_same)
  qed
qed

text \<open>
  The claim at the candidate of the specification's scenario: after two runs in which
  its diff comes back empty the files are still empty and its diff was requested
  twice.
\<close>

theorem empty_diff_reported_as_failure_witness:
  "((\<lambda>st. snd (main (\<lambda>s. ''Unknown'') (Some ''python'') sample_strptime
                  ''2025-01-01T00:00:00Z'' (Some ''t'') None [sample_pull]
                  (\<lambda>k. (Inr [], Inr (sample_statement, []))) st)) ^^ 2) empty_store
     = empty_store\<lparr>diff_requests := [''o__r-5'', ''o__r-5'']\<rparr>"
proof -
  have 1: "sample_strptime ''2025-01-01T00:00:00Z'' = Some 1735689600" by code_simp
  have 2: "Some ''t'' \<noteq> None \<or> (None :: string option) \<noteq> None" by simp
  have 3: "\<not> list_ex (\<lambda>i. sample_strptime (inst_created_at i) = None)
               (all_output empty_store)"
    by (simp add: empty_store_def)
  have 4: "task_of sample_pull \<noteq> None" by code_simp
  have 5: "is_valid_pull sample_pull" by code_simp
  have 6: "make_instance_id (full_name sample_pull) (number sample_pull)
             \<notin> set (map instance_id (all_output empty_store))"
    by (simp add: empty_store_def)
  have 7: "make_instance_id (full_name sample_pull) (number sample_pull)
             \<notin> set (map strip (successful_requests empty_store))"
    by (simp add: empty_store_def)
  have 8: "make_instance_id (full_name sample_pull) (number sample_pull) = ''o__r-5''"
    by code_simp
  have 9: "diff_requests empty_store = []" by (simp add: empty_store_def)
  show ?thesis
    using empty_diff_reported_as_failure [OF 1 2 3 4 5 6 7,
        where lexer = "\<lambda>s. ''Unknown''" and language = "Some ''python''"
          and s = "Inr (sample_statement, [])" and n = 2]
    unfolding 8 9 by (simp add: numeral_2_eq_2)
qed





end
